theory Spec2Isabelle
  imports
    Main
    "HOL-Library.Char_ord"
    "HOL-Library.List_Lexorder"
    "HOL-Library.Product_Lexorder"
    "HOL-Library.Multiset"
begin

section \<open>Values of request bodies and documents\<close>

text \<open>
  The controllers of the catalogue (\<^verbatim>\<open>controllers/authorController.js\<close> and the
  book controller) read form fields from \<^verbatim>\<open>req.body\<close>, pass them through
  validation chains and hand them to the object-document mapper. A field of a request
  body is absent, a string, or an array (a repeated form key); after sanitisation a date
  field holds a date or \<^verbatim>\<open>null\<close>, and a field of a document may hold an ObjectId. Text
  is modelled as \<^typ>\<open>string\<close>, a date as its time value in milliseconds, an ObjectId
  as the number its twenty-four hexadecimal digits write.
\<close>

datatype jsval =
    Undefined
  | Null
  | Str string
  | DateV int
  | Oid nat
  | Arr "jsval list"

text \<open>\<^verbatim>\<open>Array.isArray(v)\<close>, \<^verbatim>\<open>typeof v === 'undefined'\<close> and the truthiness of a value.\<close>

fun isArray :: "jsval \<Rightarrow> bool" where
  "isArray (Arr xs) = True"
| "isArray v = False"

fun is_undefined :: "jsval \<Rightarrow> bool" where
  "is_undefined Undefined = True"
| "is_undefined v = False"

fun falsy :: "jsval \<Rightarrow> bool" where
  "falsy Undefined = True"
| "falsy Null = True"
| "falsy (Str s) = (s = [])"
| "falsy (DateV t) = False"
| "falsy (Oid n) = False"
| "falsy (Arr xs) = False"

text \<open>
  What a handler passes to \<^verbatim>\<open>next\<close>: an \<^verbatim>\<open>Error\<close> with its message and, when the handler
  set one, its \<^verbatim>\<open>status\<close>; the \<^verbatim>\<open>TypeError\<close> the runtime throws when a property of
  \<^verbatim>\<open>null\<close> is read; the \<^verbatim>\<open>CastError\<close> with which a call of the mapper rejects when it
  is given an id that is no ObjectId; and the \<^verbatim>\<open>ValidationError\<close> with which \<^verbatim>\<open>save\<close>
  rejects a document the schema does not accept. The last three carry no status.
\<close>

datatype js_error = Error string "nat option" | TypeError | CastError | ValidationError

fun error_status :: "js_error \<Rightarrow> nat option" where
  "error_status (Error m s) = s"
| "error_status e = None"

subsection \<open>ObjectIds\<close>

text \<open>
  A text is cast to an ObjectId when it is twenty-four hexadecimal digits, of either
  case; an ObjectId is written as twenty-four lower-case digits.
\<close>

definition hex_value :: "char \<Rightarrow> nat option" where
  "hex_value c =
     (let n = (of_char c :: nat)
      in if 48 \<le> n \<and> n \<le> 57 then Some (n - 48)
         else if 97 \<le> n \<and> n \<le> 102 then Some (n - 87)
         else if 65 \<le> n \<and> n \<le> 70 then Some (n - 55)
         else None)"

fun hex_number :: "nat \<Rightarrow> string \<Rightarrow> nat option" where
  "hex_number a [] = Some a"
| "hex_number a (c # cs) =
     (case hex_value c of None \<Rightarrow> None | Some d \<Rightarrow> hex_number (16 * a + d) cs)"

definition castObjectId :: "string \<Rightarrow> nat option" where
  "castObjectId s = (if length s = 24 then hex_number 0 s else None)"

definition hex_char :: "nat \<Rightarrow> char" where
  "hex_char d = (if d < 10 then char_of (48 + d) else char_of (87 + d))"

fun hex_digits :: "nat \<Rightarrow> nat \<Rightarrow> string" where
  "hex_digits 0 n = []"
| "hex_digits (Suc k) n = hex_digits k (n div 16) @ [hex_char (n mod 16)]"

definition hex24 :: "nat \<Rightarrow> string" where
  "hex24 n = hex_digits 24 n"

section \<open>Documents\<close>

text \<open>
  Modelled from the spec: the schemas of the four models (\<^verbatim>\<open>models/author.js\<close>,
  \<^verbatim>\<open>models/book.js\<close>, \<^verbatim>\<open>models/genre.js\<close>, \<^verbatim>\<open>models/bookinstance.js\<close>), which are
  not among the sources. The spec has four flat record types, Author, Book, Genre and
  BookInstance, with references from a Book to its Author and its Genres and from a
  BookInstance to its Book. Every document has an \<^verbatim>\<open>_id\<close> (here \<open>oid\<close>), an ObjectId
  in every stored document; the other fields are those the controllers read or write.
  The names are texts, the dates dates; a reference is an ObjectId.
\<close>

record doc =
  oid :: jsval

record Author = doc +
  first_name :: jsval
  family_name :: jsval
  date_of_birth :: jsval
  date_of_death :: jsval

text \<open>\<^verbatim>\<open>populate\<close> replaces a reference by the document it names, so the types of the
  fields \<^verbatim>\<open>author\<close> and \<^verbatim>\<open>genre\<close> of a Book are parameters.\<close>

record ('a, 'g) BookOf = doc +
  title :: jsval
  author :: 'a
  summary :: jsval
  isbn :: jsval
  genre :: 'g

type_synonym Book = "(jsval, jsval) BookOf"

record Genre = doc +
  name :: jsval

record BookInstance = doc +
  book :: jsval
  status :: jsval

text \<open>
  The functions of the runtime and of the libraries that the controllers rely on but
  that are no part of the repository: the ISO 8601 test of validator.js, the date
  parser behind its \<^verbatim>\<open>toDate\<close> (\<^verbatim>\<open>Date.parse\<close>, \<open>None\<close> for \<^verbatim>\<open>NaN\<close>), the two
  renderings of a date as text, and, of the Author and Book models (\<^verbatim>\<open>models/author.js\<close>,
  \<^verbatim>\<open>models/book.js\<close>, not among the sources), the \<^verbatim>\<open>url\<close> virtuals and the validators
  their schemas run on a document that is saved. They are parameters of the model.
\<close>

record deps =
  isISO8601 :: "string \<Rightarrow> bool"
  dateParse :: "string \<Rightarrow> int option"
  toISOString :: "int \<Rightarrow> string"
  dateToString :: "int \<Rightarrow> string"
  author_url :: "Author \<Rightarrow> string"
  book_url :: "Book \<Rightarrow> string"
  author_valid :: "Author \<Rightarrow> bool"
  book_valid :: "Book \<Rightarrow> bool"

subsection \<open>Stringification\<close>

text \<open>
  \<^verbatim>\<open>Array.prototype.join\<close> with a comma, as \<^verbatim>\<open>String(array)\<close> performs it: \<^verbatim>\<open>null\<close> and
  \<^verbatim>\<open>undefined\<close> elements give the empty string.
\<close>

fun commas :: "string list \<Rightarrow> string" where
  "commas [] = []"
| "commas [s] = s"
| "commas (s # t # ts) = s @ '','' @ commas (t # ts)"

fun join_elem :: "deps \<Rightarrow> jsval \<Rightarrow> string" where
  "join_elem D Undefined = []"
| "join_elem D Null = []"
| "join_elem D (Str s) = s"
| "join_elem D (DateV t) = dateToString D t"
| "join_elem D (Oid n) = hex24 n"
| "join_elem D (Arr xs) = commas (map (join_elem D) xs)"

text \<open>
  The \<^verbatim>\<open>toString\<close> of express-validator, applied to a value before a standard validator
  or sanitizer sees it: a date stands for its ISO rendering, \<^verbatim>\<open>null\<close> and \<^verbatim>\<open>undefined\<close>
  for the empty string, any other object, an array among them, for what its own
  \<^verbatim>\<open>toString\<close> gives: the elements of an array joined by commas.
\<close>

fun toString :: "deps \<Rightarrow> jsval \<Rightarrow> string" where
  "toString D Undefined = []"
| "toString D Null = []"
| "toString D (Str s) = s"
| "toString D (DateV t) = toISOString D t"
| "toString D (Oid n) = hex24 n"
| "toString D (Arr xs) = commas (map (join_elem D) xs)"

section \<open>Validators and sanitizers of validator.js\<close>

text \<open>White space as \<^verbatim>\<open>\s\<close> matches it, among the characters of \<^typ>\<open>char\<close>: tab, line
  feed, vertical tab, form feed, carriage return, space and the no-break space.\<close>

definition is_space :: "char \<Rightarrow> bool" where
  "is_space c = (of_char c \<in> {9::nat, 10, 11, 12, 13, 32, 160})"

definition ltrim :: "string \<Rightarrow> string" where
  "ltrim s = dropWhile is_space s"

definition rtrim :: "string \<Rightarrow> string" where
  "rtrim s = rev (dropWhile is_space (rev s))"

definition trim :: "string \<Rightarrow> string" where
  "trim s = rtrim (ltrim s)"

text \<open>\<^verbatim>\<open>isLength({ min: m })\<close>: at least \<open>m\<close> characters.\<close>

definition isLength :: "nat \<Rightarrow> string \<Rightarrow> bool" where
  "isLength m s = (m \<le> length s)"

text \<open>\<^verbatim>\<open>escape\<close> replaces the characters \<^verbatim>\<open>& " ' < > / \ `\<close> by HTML entities.\<close>

definition escape_char :: "char \<Rightarrow> string" where
  "escape_char c =
    (if c = CHR ''&'' then ''&amp;''
     else if c = CHR 0x22 then ''&quot;''
     else if c = CHR 0x27 then ''&#x27;''
     else if c = CHR ''<'' then ''&lt;''
     else if c = CHR ''>'' then ''&gt;''
     else if c = CHR ''/'' then ''&#x2F;''
     else if c = CHR 0x5C then ''&#x5C;''
     else if c = CHR 0x60 then ''&#96;''
     else [c])"

definition escape :: "string \<Rightarrow> string" where
  "escape s = concat (map escape_char s)"

text \<open>\<^verbatim>\<open>isAlphanumeric\<close> with its default locale: the pattern \<^verbatim>\<open>/^[0-9A-Z]+$/i\<close>.\<close>

definition is_alnum :: "char \<Rightarrow> bool" where
  "is_alnum c =
    (let n = (of_char c :: nat)
     in (48 \<le> n \<and> n \<le> 57) \<or> (65 \<le> n \<and> n \<le> 90) \<or> (97 \<le> n \<and> n \<le> 122))"

definition isAlphanumeric :: "string \<Rightarrow> bool" where
  "isAlphanumeric s = (s \<noteq> [] \<and> list_all is_alnum s)"

text \<open>\<^verbatim>\<open>toDate\<close>: the parsed date, or \<^verbatim>\<open>null\<close> when the text does not parse.\<close>

definition toDate :: "deps \<Rightarrow> string \<Rightarrow> jsval" where
  "toDate D s = (case dateParse D s of None \<Rightarrow> Null | Some t \<Rightarrow> DateV t)"

section \<open>Validation chains of express-validator\<close>

text \<open>
  A chain \<^verbatim>\<open>body(field, message).a().b()...\<close> is a field, an optional default message
  and the items in the order they are written. Sanitizers replace the field's
  value, validators record an error when they fail and let the chain go on;
  \<^verbatim>\<open>withMessage\<close> names the message of the validator written last before it, and
  \<^verbatim>\<open>optional({ values: 'falsy' })\<close> makes every item skip a falsy value.
\<close>

datatype chain_item =
    Trim
  | Escape
  | ToDate
  | IsLength nat
  | IsAlphanumeric
  | IsISO8601
  | WithMessage string
  | OptionalFalsy

record verror =
  msg :: string
  path :: string
  val :: jsval

fun is_validator :: "chain_item \<Rightarrow> bool" where
  "is_validator (IsLength m) = True"
| "is_validator IsAlphanumeric = True"
| "is_validator IsISO8601 = True"
| "is_validator it = False"

text \<open>The message a later \<^verbatim>\<open>withMessage\<close> gives to a validator: the last one written
  before the next validator.\<close>

fun message_after :: "chain_item list \<Rightarrow> string option" where
  "message_after [] = None"
| "message_after (WithMessage m # rest) =
     (case message_after rest of None \<Rightarrow> Some m | Some m' \<Rightarrow> Some m')"
| "message_after (it # rest) = (if is_validator it then None else message_after rest)"

definition message_of :: "string option \<Rightarrow> chain_item list \<Rightarrow> string" where
  "message_of dflt rest =
     (case message_after rest of
        Some m \<Rightarrow> m
      | None \<Rightarrow> (case dflt of Some m \<Rightarrow> m | None \<Rightarrow> ''Invalid value''))"

text \<open>A standard sanitizer maps over the elements of an array and stringifies what it
  is given; a standard validator tests every element of an array, or the value.\<close>

definition sanitize :: "deps \<Rightarrow> (string \<Rightarrow> jsval) \<Rightarrow> jsval \<Rightarrow> jsval" where
  "sanitize D f v =
     (case v of Arr xs \<Rightarrow> Arr (map (\<lambda>x. f (toString D x)) xs) | _ \<Rightarrow> f (toString D v))"

definition values_of :: "jsval \<Rightarrow> jsval list" where
  "values_of v = (case v of Arr xs \<Rightarrow> xs | _ \<Rightarrow> [v])"

definition validate :: "deps \<Rightarrow> (string \<Rightarrow> bool) \<Rightarrow> string \<Rightarrow> string \<Rightarrow> jsval \<Rightarrow> verror list" where
  "validate D ok m p v =
     map (\<lambda>x. \<lparr>msg = m, path = p, val = x\<rparr>)
       (filter (\<lambda>x. \<not> ok (toString D x)) (values_of v))"

fun check :: "deps \<Rightarrow> chain_item \<Rightarrow> string \<Rightarrow> bool" where
  "check D (IsLength m) s = isLength m s"
| "check D IsAlphanumeric s = isAlphanumeric s"
| "check D IsISO8601 s = isISO8601 D s"
| "check D it s = True"

fun apply_sanitizer :: "deps \<Rightarrow> chain_item \<Rightarrow> jsval \<Rightarrow> jsval" where
  "apply_sanitizer D Trim v = sanitize D (\<lambda>s. Str (trim s)) v"
| "apply_sanitizer D Escape v = sanitize D (\<lambda>s. Str (escape s)) v"
| "apply_sanitizer D ToDate v = sanitize D (toDate D) v"
| "apply_sanitizer D it v = v"

text \<open>Running the items of a chain on one value: the value as sanitised so far and
  the errors recorded so far are threaded through.\<close>

fun run_items ::
  "deps \<Rightarrow> bool \<Rightarrow> string \<Rightarrow> string option \<Rightarrow> chain_item list \<Rightarrow> jsval \<Rightarrow> verror list
     \<Rightarrow> jsval \<times> verror list" where
  "run_items D opt p dflt [] v es = (v, es)"
| "run_items D opt p dflt (it # rest) v es =
     (if opt \<and> falsy v then run_items D opt p dflt rest v es
      else if is_validator it
        then run_items D opt p dflt rest v
               (es @ validate D (check D it) (message_of dflt rest) p v)
        else run_items D opt p dflt rest (apply_sanitizer D it v) es)"

text \<open>Decimal digits of an index, for the path \<^verbatim>\<open>field[i]\<close> of a wildcard's element.\<close>

fun show_nat :: "nat \<Rightarrow> string" where
  "show_nat n =
     (if n < 10 then [char_of (48 + n)]
      else show_nat (n div 10) @ [char_of (48 + n mod 10)])"

datatype selector = Field string | Each string

record chain =
  selects :: selector
  message :: "string option"
  stack :: "chain_item list"

definition body :: "selector \<Rightarrow> string option \<Rightarrow> chain_item list \<Rightarrow> chain" where
  "body sel m items = \<lparr>selects = sel, message = m, stack = items\<rparr>"

type_synonym form = "string \<Rightarrow> jsval"

text \<open>The elements of a wildcard selection, each run under its own path.\<close>

fun run_each ::
  "deps \<Rightarrow> chain \<Rightarrow> string \<Rightarrow> nat \<Rightarrow> jsval list \<Rightarrow> jsval list \<times> verror list" where
  "run_each D c f i [] = ([], [])"
| "run_each D c f i (x # xs) =
     (let (x', es) = run_items D (OptionalFalsy \<in> set (stack c))
                       (f @ ''['' @ show_nat i @ '']'') (message c) (stack c) x [];
          (xs', es') = run_each D c f (Suc i) xs
      in (x' # xs', es @ es'))"

text \<open>One chain as a middleware: it reads the field from the body, writes the
  sanitised value back and adds its errors to those of the request.\<close>

definition run_chain :: "deps \<Rightarrow> chain \<Rightarrow> form \<times> verror list \<Rightarrow> form \<times> verror list" where
  "run_chain D c st =
     (case selects c of
        Field f \<Rightarrow>
          (let (v, es) = run_items D (OptionalFalsy \<in> set (stack c)) f (message c) (stack c)
                           (fst st f) []
           in ((fst st)(f := v), snd st @ es))
      | Each f \<Rightarrow>
          (case fst st f of
             Arr xs \<Rightarrow>
               (let (xs', es) = run_each D c f 0 xs
                in ((fst st)(f := Arr xs'), snd st @ es))
           | _ \<Rightarrow> st))"

definition run_chains :: "deps \<Rightarrow> chain list \<Rightarrow> form \<Rightarrow> form \<times> verror list" where
  "run_chains D cs b = fold (run_chain D) cs (b, [])"

section \<open>The document store and the calls of the object-document mapper\<close>

record store =
  authors :: "Author list"
  books :: "Book list"
  genres :: "Genre list"
  bookinstances :: "BookInstance list"

text \<open>
  An awaited call of the mapper takes the store and returns, with the store it leaves,
  its result or the error it rejects with; the \<^verbatim>\<open>catch\<close> of a handler passes that error
  to \<^verbatim>\<open>next\<close>. A call that is given an id casts it to an ObjectId first and rejects with
  a \<^verbatim>\<open>CastError\<close> when the id cannot be cast. A failure of the database itself (a lost
  connection) is outside the model.
\<close>

type_synonym 'a db = "store \<Rightarrow> (js_error + 'a) \<times> store"

definition by_id :: "nat \<Rightarrow> ('z doc_scheme) list \<Rightarrow> ('z doc_scheme) option" where
  "by_id n ds = find (\<lambda>d. oid d = Oid n) ds"

text \<open>\<^verbatim>\<open>Model.findById(id)\<close>: the first document of the collection with that \<^verbatim>\<open>_id\<close>, or
  \<^verbatim>\<open>null\<close>.\<close>

definition Author_findById :: "string \<Rightarrow> (Author option) db" where
  "Author_findById i st =
     (case castObjectId i of
        None \<Rightarrow> (Inl CastError, st)
      | Some n \<Rightarrow> (Inr (by_id n (authors st)), st))"

definition Book_findById :: "string \<Rightarrow> (Book option) db" where
  "Book_findById i st =
     (case castObjectId i of
        None \<Rightarrow> (Inl CastError, st)
      | Some n \<Rightarrow> (Inr (by_id n (books st)), st))"

text \<open>\<^verbatim>\<open>Book.find({ author: id }, 'title summary')\<close>: the books of an author, projected to
  their title and summary.\<close>

definition project_title_summary :: "Book \<Rightarrow> Book" where
  "project_title_summary b = b\<lparr>author := Undefined, isbn := Undefined, genre := Undefined\<rparr>"

definition Book_find_author :: "string \<Rightarrow> (Book list) db" where
  "Book_find_author i st =
     (case castObjectId i of
        None \<Rightarrow> (Inl CastError, st)
      | Some n \<Rightarrow>
          (Inr (map project_title_summary (filter (\<lambda>b. author b = Oid n) (books st))), st))"

text \<open>\<^verbatim>\<open>BookInstance.find({ book: id })\<close>.\<close>

definition BookInstance_find_book :: "string \<Rightarrow> (BookInstance list) db" where
  "BookInstance_find_book i st =
     (case castObjectId i of
        None \<Rightarrow> (Inl CastError, st)
      | Some n \<Rightarrow> (Inr (filter (\<lambda>c. book c = Oid n) (bookinstances st)), st))"

text \<open>\<^verbatim>\<open>countDocuments\<close>, with the empty filter and with \<^verbatim>\<open>{ status: 'Available' }\<close>.\<close>

definition Book_countDocuments :: "nat db" where
  "Book_countDocuments st = (Inr (length (books st)), st)"

definition BookInstance_countDocuments :: "nat db" where
  "BookInstance_countDocuments st = (Inr (length (bookinstances st)), st)"

definition BookInstance_countDocuments_status :: "jsval \<Rightarrow> nat db" where
  "BookInstance_countDocuments_status v st =
     (Inr (length (filter (\<lambda>c. status c = v) (bookinstances st))), st)"

definition Author_countDocuments :: "nat db" where
  "Author_countDocuments st = (Inr (length (authors st)), st)"

definition Genre_countDocuments :: "nat db" where
  "Genre_countDocuments st = (Inr (length (genres st)), st)"

text \<open>
  \<^verbatim>\<open>.sort({ field: 1 })\<close>: ascending in the store's order of values. Values of one
  type are ordered among themselves (texts lexicographically, dates by their time);
  values of different types by the rank of their type, a missing field as \<^verbatim>\<open>null\<close>, an
  array by its least element and the empty array below everything.
\<close>

fun elem_key :: "jsval \<Rightarrow> nat \<times> string \<times> int" where
  "elem_key Undefined = (1, [], 0)"
| "elem_key Null = (1, [], 0)"
| "elem_key (Str s) = (3, s, 0)"
| "elem_key (Arr xs) = (5, [], 0)"
| "elem_key (Oid n) = (7, [], int n)"
| "elem_key (DateV t) = (9, [], t)"

fun bson_key :: "jsval \<Rightarrow> nat \<times> string \<times> int" where
  "bson_key (Arr []) = (0, [], 0)"
| "bson_key (Arr (x # xs)) = fold min (map elem_key xs) (elem_key x)"
| "bson_key v = elem_key v"

definition sort_asc :: "('d \<Rightarrow> jsval) \<Rightarrow> 'd list \<Rightarrow> 'd list" where
  "sort_asc field ds = sort_key (\<lambda>d. bson_key (field d)) ds"

text \<open>\<^verbatim>\<open>Author.find().sort({ family_name: 1 })\<close> and \<^verbatim>\<open>Genre.find().sort({ name: 1 })\<close>.\<close>

definition Author_find_sorted :: "(Author list) db" where
  "Author_find_sorted st = (Inr (sort_asc family_name (authors st)), st)"

definition Genre_find_sorted :: "(Genre list) db" where
  "Genre_find_sorted st = (Inr (sort_asc name (genres st)), st)"

text \<open>\<^verbatim>\<open>populate('author')\<close> and \<^verbatim>\<open>populate('genre')\<close>: the referenced documents are
  looked up; a reference to no document gives \<^verbatim>\<open>null\<close>, and is dropped from an array.\<close>

definition deref :: "jsval \<Rightarrow> ('z doc_scheme) list \<Rightarrow> ('z doc_scheme) option" where
  "deref r ds = (case r of Oid n \<Rightarrow> by_id n ds | _ \<Rightarrow> None)"

definition populate_author :: "store \<Rightarrow> (jsval, 'g) BookOf \<Rightarrow> (Author option, 'g) BookOf" where
  "populate_author st b =
     \<lparr>oid = oid b, title = title b, author = deref (author b) (authors st),
      summary = summary b, isbn = isbn b, genre = genre b\<rparr>"

definition populate_genre :: "store \<Rightarrow> ('a, jsval) BookOf \<Rightarrow> ('a, Genre list) BookOf" where
  "populate_genre st b =
     \<lparr>oid = oid b, title = title b, author = author b,
      summary = summary b, isbn = isbn b,
      genre = List.map_filter (\<lambda>r. deref r (genres st))
                (case genre b of Arr xs \<Rightarrow> xs | _ \<Rightarrow> [])\<rparr>"

text \<open>\<^verbatim>\<open>Book.find({}, 'title author').sort({ title: 1 }).populate('author')\<close>.\<close>

definition project_title_author :: "Book \<Rightarrow> Book" where
  "project_title_author b = b\<lparr>summary := Undefined, isbn := Undefined, genre := Undefined\<rparr>"

definition Book_find_sorted_populated :: "((Author option, jsval) BookOf list) db" where
  "Book_find_sorted_populated st =
     (Inr (map (populate_author st) (sort_asc title (map project_title_author (books st)))), st)"

text \<open>\<^verbatim>\<open>Book.findById(id).populate('author').populate('genre')\<close> and
  \<^verbatim>\<open>Book.findById(id).populate('author')\<close>.\<close>

definition Book_findById_populated :: "string \<Rightarrow> ((Author option, Genre list) BookOf option) db" where
  "Book_findById_populated i st =
     (case castObjectId i of
        None \<Rightarrow> (Inl CastError, st)
      | Some n \<Rightarrow>
          (Inr (map_option (\<lambda>b. populate_genre st (populate_author st b)) (by_id n (books st))),
           st))"

definition Book_findById_author :: "string \<Rightarrow> ((Author option, jsval) BookOf option) db" where
  "Book_findById_author i st =
     (case castObjectId i of
        None \<Rightarrow> (Inl CastError, st)
      | Some n \<Rightarrow> (Inr (map_option (populate_author st) (by_id n (books st))), st))"

subsection \<open>New documents\<close>

text \<open>
  \<^verbatim>\<open>new Model({...})\<close> casts each value to the type of its path. A text path takes a
  text; a date path takes a date or the text of one, and the empty text as \<^verbatim>\<open>null\<close>; a
  reference takes an ObjectId or a text that is cast to one; \<^verbatim>\<open>null\<close> and \<^verbatim>\<open>undefined\<close>
  are left as they are. A value that cannot be cast (an array on a path that holds one
  value, a text that is no date or no ObjectId) leaves its path undefined, or an array
  path empty, and the document unsound: \<^verbatim>\<open>save\<close> will reject it.
\<close>

fun cast_text :: "deps \<Rightarrow> jsval \<Rightarrow> jsval option" where
  "cast_text D Undefined = Some Undefined"
| "cast_text D Null = Some Null"
| "cast_text D (Str s) = Some (Str s)"
| "cast_text D (DateV t) = Some (Str (dateToString D t))"
| "cast_text D (Oid n) = Some (Str (hex24 n))"
| "cast_text D (Arr xs) = None"

fun cast_date :: "deps \<Rightarrow> jsval \<Rightarrow> jsval option" where
  "cast_date D Undefined = Some Undefined"
| "cast_date D Null = Some Null"
| "cast_date D (Str s) =
     (if s = [] then Some Null else map_option DateV (dateParse D s))"
| "cast_date D (DateV t) = Some (DateV t)"
| "cast_date D (Oid n) = None"
| "cast_date D (Arr xs) = None"

fun cast_ref :: "jsval \<Rightarrow> jsval option" where
  "cast_ref Undefined = Some Undefined"
| "cast_ref Null = Some Null"
| "cast_ref (Str s) = map_option Oid (castObjectId s)"
| "cast_ref (Oid n) = Some (Oid n)"
| "cast_ref (DateV t) = None"
| "cast_ref (Arr xs) = None"

fun cast_all :: "jsval list \<Rightarrow> jsval list option" where
  "cast_all [] = Some []"
| "cast_all (x # xs) =
     (case cast_ref x of
        None \<Rightarrow> None
      | Some y \<Rightarrow> (case cast_all xs of None \<Rightarrow> None | Some ys \<Rightarrow> Some (y # ys)))"

fun cast_refs :: "jsval \<Rightarrow> jsval option" where
  "cast_refs Undefined = Some (Arr [])"
| "cast_refs (Arr xs) = map_option Arr (cast_all xs)"
| "cast_refs v = map_option (\<lambda>y. Arr [y]) (cast_ref v)"

definition or_undefined :: "jsval option \<Rightarrow> jsval" where
  "or_undefined c = (case c of None \<Rightarrow> Undefined | Some v \<Rightarrow> v)"

definition or_empty :: "jsval option \<Rightarrow> jsval" where
  "or_empty c = (case c of None \<Rightarrow> Arr [] | Some v \<Rightarrow> v)"

text \<open>A new document, and whether every value given was cast.\<close>

definition new_Author :: "deps \<Rightarrow> jsval \<Rightarrow> jsval \<Rightarrow> jsval \<Rightarrow> jsval \<Rightarrow> jsval \<Rightarrow> Author \<times> bool" where
  "new_Author D i fn ln dob dod =
     (\<lparr>oid = or_undefined (cast_ref i),
       first_name = or_undefined (cast_text D fn),
       family_name = or_undefined (cast_text D ln),
       date_of_birth = or_undefined (cast_date D dob),
       date_of_death = or_undefined (cast_date D dod)\<rparr>,
      cast_ref i \<noteq> None \<and> cast_text D fn \<noteq> None \<and> cast_text D ln \<noteq> None \<and>
      cast_date D dob \<noteq> None \<and> cast_date D dod \<noteq> None)"

definition new_Book :: "deps \<Rightarrow> jsval \<Rightarrow> jsval \<Rightarrow> jsval \<Rightarrow> jsval \<Rightarrow> jsval \<Rightarrow> jsval \<Rightarrow> Book \<times> bool" where
  "new_Book D i t a sm ib g =
     (\<lparr>oid = or_undefined (cast_ref i),
       title = or_undefined (cast_text D t),
       author = or_undefined (cast_ref a),
       summary = or_undefined (cast_text D sm),
       isbn = or_undefined (cast_text D ib),
       genre = or_empty (cast_refs g)\<rparr>,
      cast_ref i \<noteq> None \<and> cast_text D t \<noteq> None \<and> cast_ref a \<noteq> None \<and>
      cast_text D sm \<noteq> None \<and> cast_text D ib \<noteq> None \<and> cast_refs g \<noteq> None)"

subsection \<open>Writes\<close>

text \<open>\<^verbatim>\<open>document.save()\<close> of a new document inserts it, unless a value could not be cast
  or a validator of the schema refuses the document: then it rejects and nothing is
  inserted.\<close>

definition Author_save :: "deps \<Rightarrow> Author \<times> bool \<Rightarrow> unit db" where
  "Author_save D a st =
     (if snd a \<and> author_valid D (fst a)
      then (Inr (), st\<lparr>authors := authors st @ [fst a]\<rparr>)
      else (Inl ValidationError, st))"

definition Book_save :: "deps \<Rightarrow> Book \<times> bool \<Rightarrow> unit db" where
  "Book_save D b st =
     (if snd b \<and> book_valid D (fst b)
      then (Inr (), st\<lparr>books := books st @ [fst b]\<rparr>)
      else (Inl ValidationError, st))"

text \<open>The id a call is given from a form body: a text is cast, \<^verbatim>\<open>null\<close> and \<^verbatim>\<open>undefined\<close>
  name no document, anything else cannot be cast.\<close>

fun cast_query_id :: "jsval \<Rightarrow> js_error + nat option" where
  "cast_query_id Undefined = Inr None"
| "cast_query_id Null = Inr None"
| "cast_query_id (Str s) =
     (case castObjectId s of None \<Rightarrow> Inl CastError | Some n \<Rightarrow> Inr (Some n))"
| "cast_query_id (Oid n) = Inr (Some n)"
| "cast_query_id (DateV t) = Inl CastError"
| "cast_query_id (Arr xs) = Inl CastError"

text \<open>\<^verbatim>\<open>Model.findByIdAndDelete(id)\<close> removes the first document with that \<^verbatim>\<open>_id\<close>, if
  there is one, and returns it.\<close>

fun delete_first :: "nat \<Rightarrow> ('z doc_scheme) list \<Rightarrow> ('z doc_scheme) list" where
  "delete_first n [] = []"
| "delete_first n (d # ds) = (if oid d = Oid n then ds else d # delete_first n ds)"

definition Author_findByIdAndDelete :: "jsval \<Rightarrow> (Author option) db" where
  "Author_findByIdAndDelete i st =
     (case cast_query_id i of
        Inl e \<Rightarrow> (Inl e, st)
      | Inr None \<Rightarrow> (Inr None, st)
      | Inr (Some n) \<Rightarrow>
          (Inr (by_id n (authors st)), st\<lparr>authors := delete_first n (authors st)\<rparr>))"

definition Book_findByIdAndDelete :: "jsval \<Rightarrow> (Book option) db" where
  "Book_findByIdAndDelete i st =
     (case cast_query_id i of
        Inl e \<Rightarrow> (Inl e, st)
      | Inr None \<Rightarrow> (Inr None, st)
      | Inr (Some n) \<Rightarrow>
          (Inr (by_id n (books st)), st\<lparr>books := delete_first n (books st)\<rparr>))"

text \<open>
  \<^verbatim>\<open>Model.findByIdAndUpdate(id, document, {})\<close> sets, in the first document with that
  \<^verbatim>\<open>_id\<close>, the fields the given document defines, and returns the document as it was
  before the update; with no such document it changes nothing and returns \<^verbatim>\<open>null\<close>.
\<close>

definition overlay :: "jsval \<Rightarrow> jsval \<Rightarrow> jsval" where
  "overlay new old = (if new = Undefined then old else new)"

definition update_author :: "Author \<Rightarrow> Author \<Rightarrow> Author" where
  "update_author u d =
     d\<lparr>first_name := overlay (first_name u) (first_name d),
       family_name := overlay (family_name u) (family_name d),
       date_of_birth := overlay (date_of_birth u) (date_of_birth d),
       date_of_death := overlay (date_of_death u) (date_of_death d)\<rparr>"

definition update_book :: "Book \<Rightarrow> Book \<Rightarrow> Book" where
  "update_book u d =
     d\<lparr>title := overlay (title u) (title d),
       author := overlay (author u) (author d),
       summary := overlay (summary u) (summary d),
       isbn := overlay (isbn u) (isbn d),
       genre := overlay (genre u) (genre d)\<rparr>"

fun update_first ::
  "nat \<Rightarrow> ('z doc_scheme \<Rightarrow> 'z doc_scheme) \<Rightarrow> ('z doc_scheme) list \<Rightarrow> ('z doc_scheme) list" where
  "update_first n f [] = []"
| "update_first n f (d # ds) = (if oid d = Oid n then f d # ds else d # update_first n f ds)"

definition Author_findByIdAndUpdate :: "string \<Rightarrow> Author \<Rightarrow> (Author option) db" where
  "Author_findByIdAndUpdate i u st =
     (case castObjectId i of
        None \<Rightarrow> (Inl CastError, st)
      | Some n \<Rightarrow>
          (Inr (by_id n (authors st)),
           st\<lparr>authors := update_first n (update_author u) (authors st)\<rparr>))"

definition Book_findByIdAndUpdate :: "string \<Rightarrow> Book \<Rightarrow> (Book option) db" where
  "Book_findByIdAndUpdate i u st =
     (case castObjectId i of
        None \<Rightarrow> (Inl CastError, st)
      | Some n \<Rightarrow>
          (Inr (by_id n (books st)),
           st\<lparr>books := update_first n (update_book u) (books st)\<rparr>))"

section \<open>Concurrent awaits\<close>

text \<open>
  \<^verbatim>\<open>await Promise.all([q1, ..., qn])\<close> starts every call and waits for all of them. The
  database serves the calls one at a time in an order the handler does not choose: the
  schedule. A schedule is a list of choices; each choice picks, among the calls still
  pending, the one served next (when the choices run out the rest is served in the
  order listed). A call sees the store the calls served before it have left, and its
  result is put at its own position. When a call rejects, the whole rejects with the
  error of the call that rejected first.
\<close>

fun pick_order :: "nat list \<Rightarrow> 'a list \<Rightarrow> 'a list" where
  "pick_order cs [] = []"
| "pick_order [] (p # ps) = p # ps"
| "pick_order (c # cs) (p # ps) =
     (let i = c mod length (p # ps)
      in (p # ps) ! i # pick_order cs (take i (p # ps) @ drop (Suc i) (p # ps)))"

text \<open>What a call does to the store, and the error it rejects with, if any.\<close>

definition outcome :: "'a db \<Rightarrow> store \<Rightarrow> js_error option \<times> store" where
  "outcome q st = (case q st of (Inl e, st') \<Rightarrow> (Some e, st') | (Inr a, st') \<Rightarrow> (None, st'))"

fun run_effects ::
  "(nat \<times> (store \<Rightarrow> js_error option \<times> store)) list \<Rightarrow> (nat \<Rightarrow> store) \<Rightarrow> js_error option
     \<Rightarrow> store \<Rightarrow> (nat \<Rightarrow> store) \<times> js_error option \<times> store" where
  "run_effects [] seen err st = (seen, err, st)"
| "run_effects ((i, f) # rest) seen err st =
     (let (e, st') = f st
      in run_effects rest (seen(i := st)) (case err of None \<Rightarrow> e | Some x \<Rightarrow> Some x) st')"

text \<open>The store each call is served on, the first rejection, and the store left when
  all are served.\<close>

definition served ::
  "nat list \<Rightarrow> (store \<Rightarrow> js_error option \<times> store) list \<Rightarrow> store
     \<Rightarrow> (nat \<Rightarrow> store) \<times> js_error option \<times> store" where
  "served sch fs st = run_effects (pick_order sch (zip [0..<length fs] fs)) (\<lambda>i. st) None st"

definition both :: "js_error + 'a \<Rightarrow> js_error + 'b \<Rightarrow> js_error + 'a \<times> 'b" where
  "both r1 r2 =
     (case r1 of
        Inl e \<Rightarrow> Inl e
      | Inr a \<Rightarrow> (case r2 of Inl e \<Rightarrow> Inl e | Inr b \<Rightarrow> Inr (a, b)))"

definition promise_all2 :: "nat list \<Rightarrow> 'a db \<Rightarrow> 'b db \<Rightarrow> ('a \<times> 'b) db" where
  "promise_all2 sch q1 q2 st =
     (let (seen, err, st') = served sch [outcome q1, outcome q2] st
      in (case err of
            Some e \<Rightarrow> Inl e
          | None \<Rightarrow> both (fst (q1 (seen 0))) (fst (q2 (seen 1))), st'))"

definition promise_all3 :: "nat list \<Rightarrow> 'a db \<Rightarrow> 'b db \<Rightarrow> 'c db \<Rightarrow> ('a \<times> 'b \<times> 'c) db" where
  "promise_all3 sch q1 q2 q3 st =
     (let (seen, err, st') = served sch [outcome q1, outcome q2, outcome q3] st
      in (case err of
            Some e \<Rightarrow> Inl e
          | None \<Rightarrow> both (fst (q1 (seen 0))) (both (fst (q2 (seen 1))) (fst (q3 (seen 2)))),
          st'))"

definition promise_all5 ::
  "nat list \<Rightarrow> 'a db \<Rightarrow> 'b db \<Rightarrow> 'c db \<Rightarrow> 'd db \<Rightarrow> 'e db \<Rightarrow> ('a \<times> 'b \<times> 'c \<times> 'd \<times> 'e) db" where
  "promise_all5 sch q1 q2 q3 q4 q5 st =
     (let (seen, err, st') =
            served sch [outcome q1, outcome q2, outcome q3, outcome q4, outcome q5] st
      in (case err of
            Some e \<Rightarrow> Inl e
          | None \<Rightarrow>
              both (fst (q1 (seen 0))) (both (fst (q2 (seen 1))) (both (fst (q3 (seen 2)))
                (both (fst (q4 (seen 3))) (fst (q5 (seen 4)))))),
          st'))"

text \<open>The same calls awaited one after the other, in the order listed: the first
  rejection ends the sequence.\<close>

definition in_turn2 :: "'a db \<Rightarrow> 'b db \<Rightarrow> ('a \<times> 'b) db" where
  "in_turn2 q1 q2 st =
     (case q1 st of
        (Inl e, st1) \<Rightarrow> (Inl e, st1)
      | (Inr a, st1) \<Rightarrow>
          (case q2 st1 of
             (Inl e, st2) \<Rightarrow> (Inl e, st2)
           | (Inr b, st2) \<Rightarrow> (Inr (a, b), st2)))"

definition in_turn3 :: "'a db \<Rightarrow> 'b db \<Rightarrow> 'c db \<Rightarrow> ('a \<times> 'b \<times> 'c) db" where
  "in_turn3 q1 q2 q3 = in_turn2 q1 (in_turn2 q2 q3)"

definition in_turn5 ::
  "'a db \<Rightarrow> 'b db \<Rightarrow> 'c db \<Rightarrow> 'd db \<Rightarrow> 'e db \<Rightarrow> ('a \<times> 'b \<times> 'c \<times> 'd \<times> 'e) db" where
  "in_turn5 q1 q2 q3 q4 q5 = in_turn2 q1 (in_turn2 q2 (in_turn2 q3 (in_turn2 q4 q5)))"

section \<open>Requests and responses\<close>

text \<open>
  A request carries the \<^verbatim>\<open>id\<close> of its URL (\<^verbatim>\<open>req.params.id\<close>) and its form body. A
  handler answers by rendering a view with named values, by a redirect, or by passing
  an error to \<^verbatim>\<open>next\<close>.
\<close>

record request =
  params_id :: string
  req_body :: form

datatype local =
    Text string
  | Val jsval
  | Count nat
  | AuthorDoc "Author option"
  | AuthorDocs "Author list"
  | BookDoc "Book option"
  | BookDocs "Book list"
  | BookWithAuthor "(Author option, jsval) BookOf"
  | BooksWithAuthor "(Author option, jsval) BookOf list"
  | BookDetailed "(Author option, Genre list) BookOf"
  | GenreDocs "Genre list"
  | GenreChoices "(Genre \<times> jsval) list"
  | Instances "BookInstance list"
  | Errors "verror list"

datatype response =
    Render string "(string \<times> local) list"
  | Redirect string
  | Next js_error

text \<open>A handler takes the store and returns its response with the store it leaves.\<close>

type_synonym handler = "store \<Rightarrow> response \<times> store"

section \<open>The author controller\<close>

text \<open>
  Every handler runs in a \<^verbatim>\<open>try\<close> whose \<^verbatim>\<open>catch\<close> passes the error to \<^verbatim>\<open>next\<close>: a call
  that rejects ends the handler with that error.
\<close>

definition author_list :: "handler" where
  "author_list st =
     (case Author_find_sorted st of
        (Inl err, st1) \<Rightarrow> (Next err, st1)
      | (Inr allAuthors, st1) \<Rightarrow>
          (Render ''author_list''
             [(''title'', Text ''Author List''), (''author_list'', AuthorDocs allAuthors)], st1))"

definition author_detail :: "nat list \<Rightarrow> request \<Rightarrow> handler" where
  "author_detail sch req st =
     (case promise_all2 sch (Author_findById (params_id req)) (Book_find_author (params_id req)) st of
        (Inl err, st1) \<Rightarrow> (Next err, st1)
      | (Inr (anAuthor, allBooksByAuthor), st1) \<Rightarrow>
          (case anAuthor of
             None \<Rightarrow> (Next (Error ''Author not found'' (Some 404)), st1)
           | Some d \<Rightarrow>
               (Render ''author_detail''
                  [(''title'', Text ''Author Detail''), (''author'', AuthorDoc (Some d)),
                   (''author_books'', BookDocs allBooksByAuthor)], st1)))"

definition author_create_get :: "handler" where
  "author_create_get st = (Render ''author_form'' [(''title'', Text ''Create Author'')], st)"

text \<open>The validation chains of \<^verbatim>\<open>author_create_post\<close> and \<^verbatim>\<open>author_update_post\<close>
  (the two arrays list the same chains).\<close>

definition author_validators :: "chain list" where
  "author_validators =
     [body (Field ''first_name'') None
        [Trim, IsLength 1, Escape, WithMessage ''First name must be specified.'',
         IsAlphanumeric, WithMessage ''First name has non-alphanumeric characters.''],
      body (Field ''family_name'') None
        [Trim, IsLength 1, Escape, WithMessage ''Family name must be specified.'',
         IsAlphanumeric, WithMessage ''Family name has non-alphanumeric characters.''],
      body (Field ''date_of_birth'') (Some ''Invalid date of birth'')
        [OptionalFalsy, IsISO8601, ToDate],
      body (Field ''date_of_death'') (Some ''Invalid date of death'')
        [OptionalFalsy, IsISO8601, ToDate]]"

text \<open>
  \<^verbatim>\<open>author_create_post\<close>: the chains, then the handler. \<open>newid\<close> is the ObjectId that
  \<^verbatim>\<open>new Author(...)\<close> gives the document.
\<close>

definition author_create_post :: "deps \<Rightarrow> nat \<Rightarrow> request \<Rightarrow> handler" where
  "author_create_post D newid req st =
     (let (b, errors) = run_chains D author_validators (req_body req);
          author = new_Author D (Oid newid) (b ''first_name'') (b ''family_name'')
                     (b ''date_of_birth'') (b ''date_of_death'')
      in if errors \<noteq> []
         then (Render ''author_form''
                 [(''title'', Text ''Create Author''), (''author'', AuthorDoc (Some (fst author))),
                  (''errors'', Errors errors)], st)
         else (case Author_save D author st of
                 (Inl err, st1) \<Rightarrow> (Next err, st1)
               | (Inr u, st1) \<Rightarrow> (Redirect (author_url D (fst author)), st1)))"

definition author_delete_get :: "nat list \<Rightarrow> request \<Rightarrow> handler" where
  "author_delete_get sch req st =
     (case promise_all2 sch (Author_findById (params_id req)) (Book_find_author (params_id req)) st of
        (Inl err, st1) \<Rightarrow> (Next err, st1)
      | (Inr (anAuthor, allBooksByAuthor), st1) \<Rightarrow>
          (case anAuthor of
             None \<Rightarrow> (Redirect ''/catalog/authors'', st1)
           | Some d \<Rightarrow>
               (Render ''author_delete''
                  [(''title'', Text ''Delete Author''), (''author'', AuthorDoc (Some d)),
                   (''author_books'', BookDocs allBooksByAuthor)], st1)))"

definition author_delete_post :: "nat list \<Rightarrow> request \<Rightarrow> handler" where
  "author_delete_post sch req st =
     (case promise_all2 sch (Author_findById (params_id req)) (Book_find_author (params_id req)) st of
        (Inl err, st1) \<Rightarrow> (Next err, st1)
      | (Inr (anAuthor, allBooksByAuthor), st1) \<Rightarrow>
          (if length allBooksByAuthor > 0
           then (Render ''author_delete''
                   [(''title'', Text ''Delete Author''), (''author'', AuthorDoc anAuthor),
                    (''author_books'', BookDocs allBooksByAuthor)], st1)
           else (case Author_findByIdAndDelete (req_body req ''authorid'') st1 of
                   (Inl err, st2) \<Rightarrow> (Next err, st2)
                 | (Inr d, st2) \<Rightarrow> (Redirect ''/catalog/authors'', st2))))"

definition author_update_get :: "request \<Rightarrow> handler" where
  "author_update_get req st =
     (case Author_findById (params_id req) st of
        (Inl err, st1) \<Rightarrow> (Next err, st1)
      | (Inr anAuthor, st1) \<Rightarrow>
          (case anAuthor of
             None \<Rightarrow> (Next (Error ''Author not found'' (Some 404)), st1)
           | Some a \<Rightarrow>
               (Render ''author_form''
                  [(''title'', Text ''Update Author''), (''author'', AuthorDoc (Some a))], st1)))"

text \<open>\<^verbatim>\<open>author_update_post\<close>: reading \<^verbatim>\<open>updatedAuthor.url\<close> throws when the update found
  no document; the \<^verbatim>\<open>catch\<close> passes what was thrown to \<^verbatim>\<open>next\<close>.\<close>

definition author_update_post :: "deps \<Rightarrow> request \<Rightarrow> handler" where
  "author_update_post D req st =
     (let (b, errors) = run_chains D author_validators (req_body req);
          author = new_Author D (Str (params_id req)) (b ''first_name'') (b ''family_name'')
                     (b ''date_of_birth'') (b ''date_of_death'')
      in if errors \<noteq> []
         then (Render ''author_form''
                 [(''title'', Text ''Update Author''), (''author'', AuthorDoc (Some (fst author))),
                  (''errors'', Errors errors)], st)
         else (case Author_findByIdAndUpdate (params_id req) (fst author) st of
                 (Inl err, st1) \<Rightarrow> (Next err, st1)
               | (Inr updatedAuthor, st1) \<Rightarrow>
                   (case updatedAuthor of
                      None \<Rightarrow> (Next TypeError, st1)
                    | Some a \<Rightarrow> (Redirect (author_url D a), st1))))"

section \<open>The book controller\<close>

text \<open>\<^verbatim>\<open>index\<close>: the home page with the five counts.\<close>

definition index_page :: "nat \<times> nat \<times> nat \<times> nat \<times> nat \<Rightarrow> response" where
  "index_page counts =
     (case counts of
        (numBooks, numBookInstances, numAvailableBookInstances, numAuthors, numGenres) \<Rightarrow>
          Render ''index''
            [(''title'', Text ''Local Library Home''),
             (''book_count'', Count numBooks),
             (''book_instance_count'', Count numBookInstances),
             (''book_instance_available_count'', Count numAvailableBookInstances),
             (''author_count'', Count numAuthors),
             (''genre_count'', Count numGenres)])"

definition index :: "nat list \<Rightarrow> handler" where
  "index sch st =
     (case promise_all5 sch Book_countDocuments BookInstance_countDocuments
             (BookInstance_countDocuments_status (Str ''Available''))
             Author_countDocuments Genre_countDocuments st of
        (Inl err, st1) \<Rightarrow> (Next err, st1)
      | (Inr counts, st1) \<Rightarrow> (index_page counts, st1))"

definition book_list :: "handler" where
  "book_list st =
     (case Book_find_sorted_populated st of
        (Inl err, st1) \<Rightarrow> (Next err, st1)
      | (Inr allBooks, st1) \<Rightarrow>
          (Render ''book_list''
             [(''title'', Text ''Book List''), (''book_list'', BooksWithAuthor allBooks)], st1))"

definition book_detail :: "nat list \<Rightarrow> request \<Rightarrow> handler" where
  "book_detail sch req st =
     (case promise_all2 sch (Book_findById_populated (params_id req)) (BookInstance_find_book (params_id req)) st of
        (Inl err, st1) \<Rightarrow> (Next err, st1)
      | (Inr (aBook, bookInstances), st1) \<Rightarrow>
          (case aBook of
             None \<Rightarrow> (Next (Error ''Book not found'' (Some 404)), st1)
           | Some d \<Rightarrow>
               (Render ''book_detail''
                  [(''title'', Val (title d)), (''book'', BookDetailed d),
                   (''book_instances'', Instances bookInstances)], st1)))"

definition book_create_get :: "nat list \<Rightarrow> handler" where
  "book_create_get sch st =
     (case promise_all2 sch Author_find_sorted Genre_find_sorted st of
        (Inl err, st1) \<Rightarrow> (Next err, st1)
      | (Inr (allAuthors, allGenres), st1) \<Rightarrow>
          (Render ''book_form''
             [(''title'', Text ''Create Book''), (''authors'', AuthorDocs allAuthors),
              (''genres'', GenreDocs allGenres)], st1))"

text \<open>The first middleware of \<^verbatim>\<open>book_create_post\<close> and \<^verbatim>\<open>book_update_post\<close>: convert
  the genre to an array.\<close>

definition genre_to_array :: "form \<Rightarrow> form" where
  "genre_to_array b =
     (if \<not> isArray (b ''genre'')
      then b(''genre'' := (if is_undefined (b ''genre'') then Arr [] else Arr [b ''genre'']))
      else b)"

definition book_validators :: "chain list" where
  "book_validators =
     [body (Field ''title'') (Some ''Title must not be empty.'') [Trim, IsLength 1, Escape],
      body (Field ''author'') (Some ''Author must not be empty.'') [Trim, IsLength 1, Escape],
      body (Field ''summary'') (Some ''Summary must not be empty.'') [Trim, IsLength 1, Escape],
      body (Field ''isbn'') (Some ''ISBN must not be empty'') [Trim, IsLength 1, Escape],
      body (Each ''genre'') None [Escape]]"

text \<open>\<^verbatim>\<open>book.genre.includes(genre._id)\<close> and the marking of the selected genres.\<close>

definition array_includes :: "jsval \<Rightarrow> jsval \<Rightarrow> bool" where
  "array_includes g v = (case g of Arr xs \<Rightarrow> v \<in> set xs | _ \<Rightarrow> False)"

definition mark_checked :: "jsval \<Rightarrow> Genre list \<Rightarrow> (Genre \<times> jsval) list" where
  "mark_checked g gs =
     map (\<lambda>x. (x, if array_includes g (oid x) then Str ''true'' else Undefined)) gs"

text \<open>The form rendered again by \<^verbatim>\<open>book_create_post\<close> and \<^verbatim>\<open>book_update_post\<close> when
  there are errors.\<close>

definition book_form_again ::
  "string \<Rightarrow> nat list \<Rightarrow> Book \<Rightarrow> verror list \<Rightarrow> handler" where
  "book_form_again heading sch aBook errors st =
     (case promise_all2 sch Author_find_sorted Genre_find_sorted st of
        (Inl err, st1) \<Rightarrow> (Next err, st1)
      | (Inr (allAuthors, allGenres), st1) \<Rightarrow>
          (Render ''book_form''
             [(''title'', Text heading), (''authors'', AuthorDocs allAuthors),
              (''genres'', GenreChoices (mark_checked (genre aBook) allGenres)),
              (''book'', BookDoc (Some aBook)), (''errors'', Errors errors)], st1))"

definition book_create_post :: "deps \<Rightarrow> nat list \<Rightarrow> nat \<Rightarrow> request \<Rightarrow> handler" where
  "book_create_post D sch newid req st =
     (let (b, errors) = run_chains D book_validators (genre_to_array (req_body req));
          book = new_Book D (Oid newid) (b ''title'') (b ''author'') (b ''summary'')
                   (b ''isbn'') (b ''genre'')
      in if errors \<noteq> []
         then book_form_again ''Create Book'' sch (fst book) errors st
         else (case Book_save D book st of
                 (Inl err, st1) \<Rightarrow> (Next err, st1)
               | (Inr u, st1) \<Rightarrow> (Redirect (book_url D (fst book)), st1)))"

definition book_delete_get :: "nat list \<Rightarrow> request \<Rightarrow> handler" where
  "book_delete_get sch req st =
     (case promise_all2 sch (Book_findById (params_id req)) (BookInstance_find_book (params_id req)) st of
        (Inl err, st1) \<Rightarrow> (Next err, st1)
      | (Inr (aBook, allBookInstances), st1) \<Rightarrow>
          (case aBook of
             None \<Rightarrow> (Redirect ''/catalog/books'', st1)
           | Some d \<Rightarrow>
               (Render ''book_delete''
                  [(''title'', Text ''Delete Book''), (''book'', BookDoc (Some d)),
                   (''book_instances'', Instances allBookInstances)], st1)))"

definition book_delete_post :: "nat list \<Rightarrow> request \<Rightarrow> handler" where
  "book_delete_post sch req st =
     (case promise_all2 sch (Book_findById (params_id req)) (BookInstance_find_book (params_id req)) st of
        (Inl err, st1) \<Rightarrow> (Next err, st1)
      | (Inr (aBook, allBookInstances), st1) \<Rightarrow>
          (if length allBookInstances > 0
           then (Render ''book_delete''
                   [(''title'', Text ''Delete Book''), (''book'', BookDoc aBook),
                    (''book_instances'', Instances allBookInstances)], st1)
           else (case Book_findByIdAndDelete (req_body req ''bookid'') st1 of
                   (Inl err, st2) \<Rightarrow> (Next err, st2)
                 | (Inr d, st2) \<Rightarrow> (Redirect ''/catalog/books'', st2))))"

definition book_update_get :: "nat list \<Rightarrow> request \<Rightarrow> handler" where
  "book_update_get sch req st =
     (case promise_all3 sch (Book_findById_author (params_id req))
             Author_find_sorted Genre_find_sorted st of
        (Inl err, st1) \<Rightarrow> (Next err, st1)
      | (Inr (aBook, allAuthors, allGenres), st1) \<Rightarrow>
          (case aBook of
             None \<Rightarrow> (Next (Error ''Book not found'' (Some 404)), st1)
           | Some d \<Rightarrow>
               (Render ''book_form''
                  [(''title'', Text ''Update Book''), (''authors'', AuthorDocs allAuthors),
                   (''genres'', GenreChoices (mark_checked (genre d) allGenres)),
                   (''book'', BookWithAuthor d)], st1)))"

definition book_update_post :: "deps \<Rightarrow> nat list \<Rightarrow> request \<Rightarrow> handler" where
  "book_update_post D sch req st =
     (let (b, errors) = run_chains D book_validators (genre_to_array (req_body req));
          book = new_Book D (Str (params_id req)) (b ''title'') (b ''author'') (b ''summary'')
                   (b ''isbn'') (if is_undefined (b ''genre'') then Arr [] else b ''genre'')
      in if errors \<noteq> []
         then book_form_again ''Update Book'' sch (fst book) errors st
         else (case Book_findByIdAndUpdate (params_id req) (fst book) st of
                 (Inl err, st1) \<Rightarrow> (Next err, st1)
               | (Inr updatedBook, st1) \<Rightarrow>
                   (case updatedBook of
                      None \<Rightarrow> (Next TypeError, st1)
                    | Some u \<Rightarrow> (Redirect (book_url D u), st1))))"

text \<open>
  The handlers with their reads awaited one after the other in the order listed, to be
  compared with the handlers above.
\<close>

definition index_in_turn :: "handler" where
  "index_in_turn st =
     (case in_turn5 Book_countDocuments BookInstance_countDocuments
             (BookInstance_countDocuments_status (Str ''Available''))
             Author_countDocuments Genre_countDocuments st of
        (Inl err, st1) \<Rightarrow> (Next err, st1)
      | (Inr counts, st1) \<Rightarrow> (index_page counts, st1))"

definition author_detail_in_turn :: "request \<Rightarrow> handler" where
  "author_detail_in_turn req st =
     (case in_turn2 (Author_findById (params_id req)) (Book_find_author (params_id req)) st of
        (Inl err, st1) \<Rightarrow> (Next err, st1)
      | (Inr (anAuthor, allBooksByAuthor), st1) \<Rightarrow>
          (case anAuthor of
             None \<Rightarrow> (Next (Error ''Author not found'' (Some 404)), st1)
           | Some d \<Rightarrow>
               (Render ''author_detail''
                  [(''title'', Text ''Author Detail''), (''author'', AuthorDoc (Some d)),
                   (''author_books'', BookDocs allBooksByAuthor)], st1)))"

definition book_detail_in_turn :: "request \<Rightarrow> handler" where
  "book_detail_in_turn req st =
     (case in_turn2 (Book_findById_populated (params_id req))
             (BookInstance_find_book (params_id req)) st of
        (Inl err, st1) \<Rightarrow> (Next err, st1)
      | (Inr (aBook, bookInstances), st1) \<Rightarrow>
          (case aBook of
             None \<Rightarrow> (Next (Error ''Book not found'' (Some 404)), st1)
           | Some d \<Rightarrow>
               (Render ''book_detail''
                  [(''title'', Val (title d)), (''book'', BookDetailed d),
                   (''book_instances'', Instances bookInstances)], st1)))"

section \<open>Auxiliary notions\<close>

text \<open>A call is a read when it leaves every store as it found it; the reads of the
  mapper reject with nothing but a \<^verbatim>\<open>CastError\<close>.\<close>

definition is_read :: "'a db \<Rightarrow> bool" where
  "is_read q = (\<forall>st. snd (q st) = st)"

definition cast_only :: "'a db \<Rightarrow> bool" where
  "cast_only q = (\<forall>st e. fst (q st) = Inl e \<longrightarrow> e = CastError)"

text \<open>A text is the id of no document of a collection: cast to an ObjectId, if it can
  be cast at all, it is the \<^verbatim>\<open>_id\<close> of none of them.\<close>

definition id_of_no :: "string \<Rightarrow> ('z doc_scheme) list \<Rightarrow> bool" where
  "id_of_no i ds = list_all (\<lambda>d. map_option Oid (castObjectId i) \<noteq> Some (oid d)) ds"

text \<open>The text of a string value, and the texts the validators of a field see: the
  value as text, or the text of each element of an array.\<close>

fun text_of :: "jsval \<Rightarrow> string" where
  "text_of (Str s) = s"
| "text_of v = []"

definition field_texts :: "deps \<Rightarrow> jsval \<Rightarrow> string list" where
  "field_texts D v = map (toString D) (values_of v)"

text \<open>A date field as a form posts it, absent or a text, and the value a document
  holds for it: nothing for an absent field, \<^verbatim>\<open>null\<close> for the empty text, and for any
  other text the date it parses to, or \<^verbatim>\<open>null\<close>.\<close>

fun text_or_absent :: "jsval \<Rightarrow> bool" where
  "text_or_absent Undefined = True"
| "text_or_absent (Str s) = True"
| "text_or_absent v = False"

fun date_held :: "deps \<Rightarrow> jsval \<Rightarrow> jsval" where
  "date_held D (Str s) = (if s = [] then Null else toDate D s)"
| "date_held D v = Undefined"

section \<open>A sample library\<close>

text \<open>
  An instance of the parameters, a small store and a way to write a form body down,
  at which the handlers are evaluated below. A form body is given by the fields it
  has; every other field is absent. The schemas' validators of the instance accept
  every document.
\<close>

definition form_of :: "(string \<times> jsval) list \<Rightarrow> form" where
  "form_of kvs k = (case map_of kvs k of None \<Rightarrow> Undefined | Some v \<Rightarrow> v)"

definition sample_deps :: deps where
  "sample_deps =
     \<lparr>isISO8601 = (\<lambda>s. s = ''1815-12-10''),
      dateParse = (\<lambda>s. if s = ''1815-12-10'' then Some (- 4861728000000) else None),
      toISOString = (\<lambda>t. ''1815-12-10T00:00:00.000Z''),
      dateToString = (\<lambda>t. ''Sun Dec 10 1815''),
      author_url = (\<lambda>a. ''/catalog/author/'' @ (case oid a of Oid n \<Rightarrow> hex24 n | _ \<Rightarrow> [])),
      book_url = (\<lambda>b. ''/catalog/book/'' @ (case oid b of Oid n \<Rightarrow> hex24 n | _ \<Rightarrow> [])),
      author_valid = (\<lambda>a. True),
      book_valid = (\<lambda>b. True)\<rparr>"

text \<open>The texts of the ObjectIds of the sample documents, and a well-formed id of no
  document.\<close>

definition id_a1 :: string where "id_a1 = ''0000000000000000000000a1''"
definition id_a2 :: string where "id_a2 = ''0000000000000000000000a2''"
definition id_b1 :: string where "id_b1 = ''0000000000000000000000b1''"
definition id_b2 :: string where "id_b2 = ''0000000000000000000000b2''"
definition id_c1 :: string where "id_c1 = ''0000000000000000000000c1''"
definition id_ff :: string where "id_ff = ''0000000000000000000000ff''"

definition ada :: Author where
  "ada = \<lparr>oid = Oid 161, first_name = Str ''Ada'', family_name = Str ''Lovelace'',
          date_of_birth = Null, date_of_death = Null\<rparr>"

definition charles :: Author where
  "charles = \<lparr>oid = Oid 162, first_name = Str ''Charles'', family_name = Str ''Babbage'',
              date_of_birth = Null, date_of_death = Null\<rparr>"

definition sketch :: Book where
  "sketch = \<lparr>oid = Oid 177, title = Str ''Sketch'', author = Oid 161,
             summary = Str ''On the engine'', isbn = Str ''1'', genre = Arr [Oid 193]\<rparr>"

definition essays :: Book where
  "essays = \<lparr>oid = Oid 178, title = Str ''Essays'', author = Oid 161,
             summary = Str ''Collected'', isbn = Str ''2'', genre = Arr []\<rparr>"

definition science :: Genre where
  "science = \<lparr>oid = Oid 193, name = Str ''Science''\<rparr>"

definition copy1 :: BookInstance where
  "copy1 = \<lparr>oid = Oid 209, book = Oid 177, status = Str ''Available''\<rparr>"

definition sample_store :: store where
  "sample_store =
     \<lparr>authors = [ada, charles], books = [sketch, essays], genres = [science],
      bookinstances = [copy1]\<rparr>"

section \<open>Reads awaited together\<close>

lemma set_pick_order: "set (pick_order cs ps) \<subseteq> set ps"
proof (induction cs ps rule: pick_order.induct)
  case (1 cs)
  show ?case by simp
next
  case (2 p ps)
  show ?case by simp
next
  case (3 c cs p ps)
  define xs where "xs = p # ps"
  define i where "i = c mod length xs"
  define r where "r = take i xs @ drop (Suc i) xs"
  have "xs \<noteq> []" by (simp add: xs_def)
  then have "i < length xs" by (simp add: i_def)
  then have a: "xs ! i \<in> set xs" by (rule nth_mem)
  have b: "set r \<subseteq> set xs"
    unfolding r_def by (auto dest: in_set_takeD in_set_dropD)
  have ih: "set (pick_order cs r) \<subseteq> set r"
    unfolding r_def xs_def by (rule "3.IH") (simp add: i_def xs_def)
  have e: "pick_order (c # cs) (p # ps) = xs ! i # pick_order cs r"
    by (simp only: pick_order.simps Let_def xs_def i_def r_def)
  show ?case
    unfolding e using a b ih by (auto simp: xs_def [symmetric])
qed

text \<open>Every schedule serves each pending call exactly once.\<close>

lemma mset_pick_order: "mset (pick_order cs ps) = mset ps"
proof (induction cs ps rule: pick_order.induct)
  case (1 cs)
  show ?case by simp
next
  case (2 p ps)
  show ?case by simp
next
  case (3 c cs p ps)
  define xs where "xs = p # ps"
  define i where "i = c mod length xs"
  define r where "r = take i xs @ drop (Suc i) xs"
  have "xs \<noteq> []" by (simp add: xs_def)
  then have "i < length xs" by (simp add: i_def)
  then have "xs = take i xs @ xs ! i # drop (Suc i) xs" by (rule id_take_nth_drop)
  then have "mset xs = mset (take i xs @ xs ! i # drop (Suc i) xs)" by simp
  then have a: "mset xs = add_mset (xs ! i) (mset r)" by (simp add: r_def)
  have ih: "mset (pick_order cs r) = mset r"
    unfolding r_def xs_def by (rule "3.IH") (simp add: i_def xs_def)
  have e: "pick_order (c # cs) (p # ps) = xs ! i # pick_order cs r"
    by (simp only: pick_order.simps Let_def xs_def i_def r_def)
  have "mset (pick_order (c # cs) (p # ps)) = add_mset (xs ! i) (mset r)"
    by (simp only: e mset.simps ih)
  also have "\<dots> = mset (p # ps)"
    using a by (simp only: xs_def)
  finally show ?case .
qed

lemma run_effects_reads:
  assumes "\<And>i f s. (i, f) \<in> set ps \<Longrightarrow> snd (f s) = s"
    and "\<And>i f s e. (i, f) \<in> set ps \<Longrightarrow> fst (f s) = Some e \<Longrightarrow> e = e0"
  shows "run_effects ps (\<lambda>i. st) err st =
     (\<lambda>i. st,
      (case err of
         Some x \<Rightarrow> Some x
       | None \<Rightarrow> if \<exists>p\<in>set ps. fst (snd p st) \<noteq> None then Some e0 else None), st)"
  using assms
proof (induction ps arbitrary: err)
  case Nil
  show ?case by (cases err) simp_all
next
  case (Cons p ps)
  obtain i f where p: "p = (i, f)" by (cases p)
  obtain e where fe: "f st = (e, st)"
    using Cons.prems(1) [of i f st] p by (cases "f st") simp
  have e0: "e = None \<or> e = Some e0"
    using Cons.prems(2) [of i f st] p fe by (cases e) simp_all
  have u: "(\<lambda>j. st)(i := st) = (\<lambda>j. st)" by (rule ext) simp
  have ih: "run_effects ps (\<lambda>i. st) err' st =
     (\<lambda>i. st,
      (case err' of
         Some x \<Rightarrow> Some x
       | None \<Rightarrow> if \<exists>p\<in>set ps. fst (snd p st) \<noteq> None then Some e0 else None), st)" for err'
  proof (rule Cons.IH)
    fix j g s assume "(j, g) \<in> set ps"
    then show "snd (g s) = s" using Cons.prems(1) [of j g s] by simp
  next
    fix j g s x assume "(j, g) \<in> set ps" "fst (g s) = Some x"
    then show "x = e0" using Cons.prems(2) [of j g s x] by simp
  qed
  have "run_effects (p # ps) (\<lambda>i. st) err st =
      run_effects ps (\<lambda>i. st) (case err of None \<Rightarrow> e | Some x \<Rightarrow> Some x) st"
    by (simp add: p fe u)
  also have "\<dots> = (\<lambda>i. st,
      (case err of
         Some x \<Rightarrow> Some x
       | None \<Rightarrow> if \<exists>p\<in>set (p # ps). fst (snd p st) \<noteq> None then Some e0 else None), st)"
    using e0 by (cases err) (auto simp: ih p fe)
  finally show ?case .
qed

lemma served_reads:
  assumes "\<And>f s. f \<in> set fs \<Longrightarrow> snd (f s) = s"
    and "\<And>f s e. f \<in> set fs \<Longrightarrow> fst (f s) = Some e \<Longrightarrow> e = e0"
  shows "served sch fs st =
     (\<lambda>i. st, if \<exists>f\<in>set fs. fst (f st) \<noteq> None then Some e0 else None, st)"
proof -
  let ?ps = "pick_order sch (zip [0..<length fs] fs)"
  have sub: "set ?ps = set (zip [0..<length fs] fs)"
    using mset_pick_order [of sch "zip [0..<length fs] fs"] by (rule mset_eq_setD)
  have r: "run_effects ?ps (\<lambda>i. st) None st =
     (\<lambda>i. st, if \<exists>p\<in>set ?ps. fst (snd p st) \<noteq> None then Some e0 else None, st)"
  proof (subst run_effects_reads [where ?e0.0 = e0])
    fix i f s assume "(i, f) \<in> set ?ps"
    then have "f \<in> set fs" unfolding sub by (rule set_zip_rightD)
    then show "snd (f s) = s" by (rule assms(1))
  next
    fix i f s e assume "(i, f) \<in> set ?ps" and e: "fst (f s) = Some e"
    then have "f \<in> set fs" unfolding sub by (metis set_zip_rightD)
    then show "e = e0" using e by (rule assms(2))
  qed simp
  have "(\<exists>p\<in>set ?ps. fst (snd p st) \<noteq> None) = (\<exists>f\<in>set fs. fst (f st) \<noteq> None)"
  proof -
    have "snd ` set (zip [0..<length fs] fs) = set fs"
      by (metis length_upt diff_zero map_snd_zip set_map)
    then show ?thesis unfolding sub by (metis (no_types, lifting) image_iff)
  qed
  with r show ?thesis by (simp add: served_def)
qed

lemma outcome_snd: "snd (outcome q s) = snd (q s)"
  by (simp add: outcome_def split: prod.splits sum.splits)

lemma outcome_read: "is_read q \<Longrightarrow> snd (outcome q s) = s"
  by (simp add: outcome_snd is_read_def)

lemma outcome_fst:
  "fst (outcome q s) = (case fst (q s) of Inl e \<Rightarrow> Some e | Inr a \<Rightarrow> None)"
  by (simp add: outcome_def split: prod.splits sum.splits)

lemma outcome_isl:
  "(\<exists>e. fst (outcome q s) = Some e) \<longleftrightarrow> isl (fst (q s))"
  "fst (outcome q s) = None \<longleftrightarrow> \<not> isl (fst (q s))"
  by (simp_all add: outcome_fst split: sum.splits)

lemma outcome_cast: "cast_only q \<Longrightarrow> fst (outcome q s) = Some e \<Longrightarrow> e = CastError"
  by (simp add: outcome_fst cast_only_def split: sum.splits)

lemma isl_both: "isl (both r1 r2) \<longleftrightarrow> isl r1 \<or> isl r2"
  by (cases r1; cases r2) (simp_all add: both_def)

lemma both_error:
  "\<forall>e. r1 = Inl e \<longrightarrow> e = c \<Longrightarrow> \<forall>e. r2 = Inl e \<longrightarrow> e = c \<Longrightarrow>
   \<forall>e. both r1 r2 = Inl e \<longrightarrow> e = c"
  by (cases r1; cases r2) (simp_all add: both_def)

lemma settle:
  "\<forall>e. r = Inl e \<longrightarrow> e = c \<Longrightarrow>
   (case (if isl r then Some c else None) of Some e \<Rightarrow> Inl e | None \<Rightarrow> r) = r"
  by (cases r) simp_all

lemma cast_onlyD: "cast_only q \<Longrightarrow> \<forall>e. fst (q st) = Inl e \<longrightarrow> e = CastError"
  by (simp add: cast_only_def)

lemma served_outcomes:
  assumes "\<And>f s. f \<in> set fs \<Longrightarrow> snd (f s) = s"
    and "\<And>f s e. f \<in> set fs \<Longrightarrow> fst (f s) = Some e \<Longrightarrow> e = CastError"
  shows "served sch fs st =
     (\<lambda>i. st, if \<exists>f\<in>set fs. fst (f st) \<noteq> None then Some CastError else None, st)"
  using assms by (rule served_reads)

lemma promise_all2_reads:
  assumes "is_read q1" "is_read q2" "cast_only q1" "cast_only q2"
  shows "promise_all2 sch q1 q2 st = (both (fst (q1 st)) (fst (q2 st)), st)"
proof -
  let ?r = "both (fst (q1 st)) (fst (q2 st))"
  have s: "served sch [outcome q1, outcome q2] st =
     (\<lambda>i. st, if isl ?r then Some CastError else None, st)"
  proof (subst served_outcomes)
    fix f s assume "f \<in> set [outcome q1, outcome q2]"
    then show "snd (f s) = s" using assms(1,2) by (auto simp: outcome_read)
  next
    fix f s e assume "f \<in> set [outcome q1, outcome q2]" "fst (f s) = Some e"
    then show "e = CastError" using assms(3,4) by (auto dest: outcome_cast)
  qed (simp add: outcome_isl isl_both)
  have "\<forall>e. ?r = Inl e \<longrightarrow> e = CastError"
    by (intro both_error cast_onlyD assms)
  then show ?thesis by (simp add: promise_all2_def s settle)
qed

lemma promise_all3_reads:
  assumes "is_read q1" "is_read q2" "is_read q3" "cast_only q1" "cast_only q2" "cast_only q3"
  shows "promise_all3 sch q1 q2 q3 st =
     (both (fst (q1 st)) (both (fst (q2 st)) (fst (q3 st))), st)"
proof -
  let ?r = "both (fst (q1 st)) (both (fst (q2 st)) (fst (q3 st)))"
  have s: "served sch [outcome q1, outcome q2, outcome q3] st =
     (\<lambda>i. st, if isl ?r then Some CastError else None, st)"
  proof (subst served_outcomes)
    fix f s assume "f \<in> set [outcome q1, outcome q2, outcome q3]"
    then show "snd (f s) = s" using assms(1,2,3) by (auto simp: outcome_read)
  next
    fix f s e assume "f \<in> set [outcome q1, outcome q2, outcome q3]" "fst (f s) = Some e"
    then show "e = CastError" using assms(4,5,6) by (auto dest: outcome_cast)
  qed (simp add: outcome_isl isl_both)
  have "\<forall>e. ?r = Inl e \<longrightarrow> e = CastError"
    by (intro both_error cast_onlyD assms)
  then show ?thesis by (simp add: promise_all3_def s settle)
qed

lemma promise_all5_reads:
  assumes "is_read q1" "is_read q2" "is_read q3" "is_read q4" "is_read q5"
    and "cast_only q1" "cast_only q2" "cast_only q3" "cast_only q4" "cast_only q5"
  shows "promise_all5 sch q1 q2 q3 q4 q5 st =
     (both (fst (q1 st)) (both (fst (q2 st)) (both (fst (q3 st))
        (both (fst (q4 st)) (fst (q5 st))))), st)"
proof -
  let ?r = "both (fst (q1 st)) (both (fst (q2 st)) (both (fst (q3 st))
        (both (fst (q4 st)) (fst (q5 st)))))"
  have s: "served sch [outcome q1, outcome q2, outcome q3, outcome q4, outcome q5] st =
     (\<lambda>i. st, if isl ?r then Some CastError else None, st)"
  proof (subst served_outcomes)
    fix f s assume "f \<in> set [outcome q1, outcome q2, outcome q3, outcome q4, outcome q5]"
    then show "snd (f s) = s" using assms(1-5) by (auto simp: outcome_read)
  next
    fix f s e
    assume "f \<in> set [outcome q1, outcome q2, outcome q3, outcome q4, outcome q5]"
      "fst (f s) = Some e"
    then show "e = CastError" using assms(6-10) by (auto dest: outcome_cast)
  qed (simp add: outcome_isl isl_both)
  have "\<forall>e. ?r = Inl e \<longrightarrow> e = CastError"
    by (intro both_error cast_onlyD assms)
  then show ?thesis by (simp add: promise_all5_def s settle)
qed

lemma read_result: "is_read q \<Longrightarrow> q st = (fst (q st), st)"
  by (simp add: is_read_def prod_eq_iff)

lemma in_turn2_reads:
  assumes "is_read q1" "is_read q2"
  shows "in_turn2 q1 q2 st = (both (fst (q1 st)) (fst (q2 st)), st)"
proof -
  define r1 where "r1 = fst (q1 st)"
  define r2 where "r2 = fst (q2 st)"
  have r: "q1 st = (r1, st)" "q2 st = (r2, st)"
    unfolding r1_def r2_def using assms by (simp_all add: read_result [symmetric])
  have "in_turn2 q1 q2 st = (both r1 r2, st)"
    by (cases r1; cases r2) (simp_all add: in_turn2_def both_def r)
  then show ?thesis by (simp only: r1_def r2_def)
qed

lemma in_turn2_is_read: "is_read q1 \<Longrightarrow> is_read q2 \<Longrightarrow> is_read (in_turn2 q1 q2)"
  by (simp add: is_read_def [of "in_turn2 q1 q2"] in_turn2_reads)

lemma in_turn3_reads:
  "is_read q1 \<Longrightarrow> is_read q2 \<Longrightarrow> is_read q3 \<Longrightarrow>
   in_turn3 q1 q2 q3 st = (both (fst (q1 st)) (both (fst (q2 st)) (fst (q3 st))), st)"
  by (simp add: in_turn3_def in_turn2_reads in_turn2_is_read)

lemma in_turn5_reads:
  "is_read q1 \<Longrightarrow> is_read q2 \<Longrightarrow> is_read q3 \<Longrightarrow> is_read q4 \<Longrightarrow> is_read q5 \<Longrightarrow>
   in_turn5 q1 q2 q3 q4 q5 st =
     (both (fst (q1 st)) (both (fst (q2 st)) (both (fst (q3 st))
        (both (fst (q4 st)) (fst (q5 st))))), st)"
  by (simp add: in_turn5_def in_turn2_reads in_turn2_is_read)

lemma reads [simp]:
  "is_read (Author_findById i)" "is_read (Book_findById i)" "is_read (Book_find_author i)"
  "is_read (BookInstance_find_book i)" "is_read Book_countDocuments"
  "is_read BookInstance_countDocuments" "is_read (BookInstance_countDocuments_status v)"
  "is_read Author_countDocuments" "is_read Genre_countDocuments"
  "is_read Author_find_sorted" "is_read Genre_find_sorted"
  "is_read (Book_findById_populated i)" "is_read (Book_findById_author i)"
  by (simp_all add: is_read_def Author_findById_def Book_findById_def Book_find_author_def
      BookInstance_find_book_def Book_countDocuments_def BookInstance_countDocuments_def
      BookInstance_countDocuments_status_def Author_countDocuments_def Genre_countDocuments_def
      Author_find_sorted_def Genre_find_sorted_def Book_findById_populated_def
      Book_findById_author_def split: option.splits)

lemma reads_cast_only [simp]:
  "cast_only (Author_findById i)" "cast_only (Book_findById i)" "cast_only (Book_find_author i)"
  "cast_only (BookInstance_find_book i)" "cast_only Book_countDocuments"
  "cast_only BookInstance_countDocuments" "cast_only (BookInstance_countDocuments_status v)"
  "cast_only Author_countDocuments" "cast_only Genre_countDocuments"
  "cast_only Author_find_sorted" "cast_only Genre_find_sorted"
  "cast_only (Book_findById_populated i)" "cast_only (Book_findById_author i)"
  by (simp_all add: cast_only_def Author_findById_def Book_findById_def Book_find_author_def
      BookInstance_find_book_def Book_countDocuments_def BookInstance_countDocuments_def
      BookInstance_countDocuments_status_def Author_countDocuments_def Genre_countDocuments_def
      Author_find_sorted_def Genre_find_sorted_def Book_findById_populated_def
      Book_findById_author_def split: option.splits)

section \<open>Facts about the store\<close>

lemma by_id_None: "castObjectId i = Some n \<Longrightarrow> id_of_no i ds \<Longrightarrow> by_id n ds = None"
  by (auto simp: by_id_def id_of_no_def find_None_iff list_all_iff)



lemma update_first_absent: "by_id n ds = None \<Longrightarrow> update_first n f ds = ds"
  by (induction ds) (auto simp: by_id_def split: if_splits)

lemma fst_reads:
  "fst (Author_findById i st) =
     (case castObjectId i of None \<Rightarrow> Inl CastError | Some n \<Rightarrow> Inr (by_id n (authors st)))"
  "fst (Book_findById i st) =
     (case castObjectId i of None \<Rightarrow> Inl CastError | Some n \<Rightarrow> Inr (by_id n (books st)))"
  "fst (Book_find_author i st) =
     (case castObjectId i of None \<Rightarrow> Inl CastError
      | Some n \<Rightarrow> Inr (map project_title_summary (filter (\<lambda>b. author b = Oid n) (books st))))"
  "fst (BookInstance_find_book i st) =
     (case castObjectId i of None \<Rightarrow> Inl CastError
      | Some n \<Rightarrow> Inr (filter (\<lambda>c. book c = Oid n) (bookinstances st)))"
  "fst (Author_find_sorted st) = Inr (sort_asc family_name (authors st))"
  "fst (Genre_find_sorted st) = Inr (sort_asc name (genres st))"
  "fst (Book_findById_populated i st) =
     (case castObjectId i of None \<Rightarrow> Inl CastError
      | Some n \<Rightarrow> Inr (map_option (\<lambda>b. populate_genre st (populate_author st b))
                         (by_id n (books st))))"
  "fst (Book_findById_author i st) =
     (case castObjectId i of None \<Rightarrow> Inl CastError
      | Some n \<Rightarrow> Inr (map_option (populate_author st) (by_id n (books st))))"
  by (simp_all add: Author_findById_def Book_findById_def Book_find_author_def
      BookInstance_find_book_def Author_find_sorted_def Genre_find_sorted_def
      Book_findById_populated_def Book_findById_author_def split: option.splits)

lemmas awaits = promise_all2_reads promise_all3_reads promise_all5_reads
  in_turn2_reads in_turn3_reads in_turn5_reads

lemma sorted_texts:
  assumes "sorted (map (\<lambda>d. bson_key (f d)) ds)" and "\<forall>d\<in>set ds. \<exists>s. f d = Str s"
  shows "sorted (map (\<lambda>d. text_of (f d)) ds)"
proof -
  have "sorted_wrt (\<lambda>x y. bson_key (f x) \<le> bson_key (f y)) ds"
    using assms(1) by (simp add: sorted_map)
  then have "sorted_wrt (\<lambda>x y. text_of (f x) \<le> text_of (f y)) ds"
  proof (rule sorted_wrt_mono_rel [rotated])
    fix x y assume "x \<in> set ds" "y \<in> set ds" "bson_key (f x) \<le> bson_key (f y)"
    moreover obtain s t where "f x = Str s" "f y = Str t" using assms(2) calculation by blast
    ultimately show "text_of (f x) \<le> text_of (f y)" by (auto simp: less_eq_prod_def)
  qed
  then show ?thesis by (simp add: sorted_map)
qed

lemma populate_author_sel [simp]:
  "oid (populate_author st b) = oid b" "title (populate_author st b) = title b"
  by (simp_all add: populate_author_def)

lemma project_title_author_sel [simp]:
  "oid (project_title_author b) = oid b" "title (project_title_author b) = title b"
  by (simp_all add: project_title_author_def)

section \<open>Facts about the validation chains\<close>

lemma values_of_sanitize:
  "values_of (sanitize D (\<lambda>s. Str (g s)) v) = map (\<lambda>x. Str (g (toString D x))) (values_of v)"
  by (cases v) (simp_all add: values_of_def sanitize_def)

lemma validate_fails:
  "\<exists>x\<in>set (values_of v). \<not> ok (toString D x) \<Longrightarrow> \<exists>e\<in>set (validate D ok m p v). path e = p"
  by (auto simp: validate_def)

lemma is_alnum_escape_char: "list_all is_alnum (escape_char c) \<Longrightarrow> escape_char c = [c]"
  by (simp add: escape_char_def is_alnum_def split: if_splits)

lemma alnum_escape: "list_all is_alnum (escape t) \<Longrightarrow> list_all is_alnum t"
proof (induction t)
  case Nil
  show ?case by simp
next
  case (Cons c t)
  from Cons.prems have c: "list_all is_alnum (escape_char c)" and t: "list_all is_alnum (escape t)"
    by (simp_all add: escape_def)
  from c have "escape_char c = [c]" by (rule is_alnum_escape_char)
  with c have "is_alnum c" by simp
  with Cons.IH [OF t] show ?case by simp
qed

lemma name_rejected:
  "trim s = [] \<or> \<not> list_all is_alnum (trim s) \<Longrightarrow> \<not> isAlphanumeric (escape (trim s))"
  using alnum_escape [of "trim s"] by (auto simp: isAlphanumeric_def escape_def)

lemma check_eta:
  "check D (IsLength m) = isLength m" "check D IsAlphanumeric = isAlphanumeric"
  "check D IsISO8601 = isISO8601 D"
  by (rule ext, simp)+

lemma name_items_errors:
  "snd (run_items D False p dflt
          [Trim, IsLength 1, Escape, WithMessage m1, IsAlphanumeric, WithMessage m2] v es) =
     es @ validate D (isLength 1) m1 p (sanitize D (\<lambda>s. Str (trim s)) v) @
       validate D isAlphanumeric m2 p
         (sanitize D (\<lambda>s. Str (escape s)) (sanitize D (\<lambda>s. Str (trim s)) v))"
  by (simp add: message_of_def check_eta)

lemma text_items_errors:
  "snd (run_items D False p (Some m) [Trim, IsLength 1, Escape] v es) =
     es @ validate D (isLength 1) m p (sanitize D (\<lambda>s. Str (trim s)) v)"
  by (simp add: message_of_def check_eta)

lemma date_items_errors:
  "\<not> falsy v \<Longrightarrow>
   snd (run_items D True p (Some m) [OptionalFalsy, IsISO8601, ToDate] v es) =
     es @ validate D (isISO8601 D) m p v"
  by (simp add: message_of_def check_eta)

lemma author_errors:
  "snd (run_chains D author_validators b) =
     snd (run_items D False ''first_name'' None
            [Trim, IsLength 1, Escape, WithMessage ''First name must be specified.'',
             IsAlphanumeric, WithMessage ''First name has non-alphanumeric characters.'']
            (b ''first_name'') []) @
     snd (run_items D False ''family_name'' None
            [Trim, IsLength 1, Escape, WithMessage ''Family name must be specified.'',
             IsAlphanumeric, WithMessage ''Family name has non-alphanumeric characters.'']
            (b ''family_name'') []) @
     snd (run_items D True ''date_of_birth'' (Some ''Invalid date of birth'')
            [OptionalFalsy, IsISO8601, ToDate] (b ''date_of_birth'') []) @
     snd (run_items D True ''date_of_death'' (Some ''Invalid date of death'')
            [OptionalFalsy, IsISO8601, ToDate] (b ''date_of_death'') [])"
  supply run_items.simps [simp del]
  by (simp add: run_chains_def author_validators_def run_chain_def body_def split_beta)


lemma book_errors:
  "\<exists>rest. snd (run_chains D book_validators b) =
     snd (run_items D False ''title'' (Some ''Title must not be empty.'')
            [Trim, IsLength 1, Escape] (b ''title'') []) @
     snd (run_items D False ''author'' (Some ''Author must not be empty.'')
            [Trim, IsLength 1, Escape] (b ''author'') []) @
     snd (run_items D False ''summary'' (Some ''Summary must not be empty.'')
            [Trim, IsLength 1, Escape] (b ''summary'') []) @
     snd (run_items D False ''isbn'' (Some ''ISBN must not be empty'')
            [Trim, IsLength 1, Escape] (b ''isbn'') []) @ rest"
  supply run_items.simps [simp del]
  by (cases "b ''genre''")
    (simp_all add: run_chains_def book_validators_def run_chain_def body_def split_beta)

lemma name_chain_rejects:
  assumes "\<exists>s\<in>set (field_texts D v). trim s = [] \<or> \<not> list_all is_alnum (trim s)"
  shows "\<exists>e\<in>set (snd (run_items D False p dflt
           [Trim, IsLength 1, Escape, WithMessage m1, IsAlphanumeric, WithMessage m2] v [])).
           path e = p"
proof -
  from assms obtain x where x: "x \<in> set (values_of v)"
    and v: "trim (toString D x) = [] \<or> \<not> list_all is_alnum (trim (toString D x))"
    by (auto simp: field_texts_def)
  from v have bad: "\<not> isAlphanumeric (escape (trim (toString D x)))"
    by (rule name_rejected)
  let ?w = "sanitize D (\<lambda>s. Str (escape s)) (sanitize D (\<lambda>s. Str (trim s)) v)"
  have "Str (escape (trim (toString D x))) \<in> set (values_of ?w)"
    using x by (simp add: values_of_sanitize image_iff) (rule bexI [of _ x], simp_all)
  with bad have "\<exists>y\<in>set (values_of ?w). \<not> isAlphanumeric (toString D y)"
    by (intro bexI [of _ "Str (escape (trim (toString D x)))"]) simp_all
  then have "\<exists>e\<in>set (validate D isAlphanumeric m2 p ?w). path e = p"
    by (rule validate_fails)
  then show ?thesis by (simp only: name_items_errors append_Nil set_append bex_Un) simp
qed

lemma text_chain_rejects:
  assumes "\<exists>s\<in>set (field_texts D v). trim s = []"
  shows "\<exists>e\<in>set (snd (run_items D False p (Some m) [Trim, IsLength 1, Escape] v [])).
           path e = p"
proof -
  from assms obtain x where x: "x \<in> set (values_of v)" and bad: "trim (toString D x) = []"
    by (auto simp: field_texts_def)
  let ?w = "sanitize D (\<lambda>s. Str (trim s)) v"
  have "Str (trim (toString D x)) \<in> set (values_of ?w)"
    using x by (simp add: values_of_sanitize image_iff) (rule bexI [of _ x], simp_all)
  with bad have "\<exists>y\<in>set (values_of ?w). \<not> isLength 1 (toString D y)"
    by (intro bexI [of _ "Str (trim (toString D x))"]) (simp_all add: isLength_def)
  then have "\<exists>e\<in>set (validate D (isLength 1) m p ?w). path e = p"
    by (rule validate_fails)
  then show ?thesis by (simp only: text_items_errors append_Nil)
qed

lemma date_chain_rejects:
  assumes "\<not> falsy v" and "\<exists>s\<in>set (field_texts D v). \<not> isISO8601 D s"
  shows "\<exists>e\<in>set (snd (run_items D True p (Some m) [OptionalFalsy, IsISO8601, ToDate] v [])).
           path e = p"
proof -
  from assms(2) have "\<exists>x\<in>set (values_of v). \<not> isISO8601 D (toString D x)"
    by (auto simp: field_texts_def)
  then have "\<exists>e\<in>set (validate D (isISO8601 D) m p v). path e = p"
    by (rule validate_fails)
  then show ?thesis by (simp only: date_items_errors [OF assms(1)] append_Nil)
qed

lemma genre_to_array_other: "f \<noteq> ''genre'' \<Longrightarrow> genre_to_array b f = b f"
  by (simp add: genre_to_array_def)





lemma date_items_value:
  "fst (run_items D True p (Some m) [OptionalFalsy, IsISO8601, ToDate] v es) =
     (if falsy v then v else sanitize D (toDate D) v)"
  by simp

lemma author_sanitized:
  "fst (run_chains D author_validators b) =
     b(''first_name'' := fst (run_items D False ''first_name'' None
            [Trim, IsLength 1, Escape, WithMessage ''First name must be specified.'',
             IsAlphanumeric, WithMessage ''First name has non-alphanumeric characters.'']
            (b ''first_name'') []),
       ''family_name'' := fst (run_items D False ''family_name'' None
            [Trim, IsLength 1, Escape, WithMessage ''Family name must be specified.'',
             IsAlphanumeric, WithMessage ''Family name has non-alphanumeric characters.'']
            (b ''family_name'') []),
       ''date_of_birth'' := fst (run_items D True ''date_of_birth'' (Some ''Invalid date of birth'')
            [OptionalFalsy, IsISO8601, ToDate] (b ''date_of_birth'') []),
       ''date_of_death'' := fst (run_items D True ''date_of_death'' (Some ''Invalid date of death'')
            [OptionalFalsy, IsISO8601, ToDate] (b ''date_of_death'') []))"
  supply run_items.simps [simp del]
  by (simp add: run_chains_def author_validators_def run_chain_def body_def split_beta)


lemma author_names_sanitized:
  "b ''first_name'' = Str s \<Longrightarrow>
     fst (run_chains D author_validators b) ''first_name'' = Str (escape (trim s))"
  "b ''family_name'' = Str s \<Longrightarrow>
     fst (run_chains D author_validators b) ''family_name'' = Str (escape (trim s))"
  by (simp_all add: author_sanitized sanitize_def)

lemma book_sanitized:
  "fst (run_chains D book_validators b) ''title'' =
     fst (run_items D False ''title'' (Some ''Title must not be empty.'')
            [Trim, IsLength 1, Escape] (b ''title'') [])"
  "fst (run_chains D book_validators b) ''author'' =
     fst (run_items D False ''author'' (Some ''Author must not be empty.'')
            [Trim, IsLength 1, Escape] (b ''author'') [])"
  "fst (run_chains D book_validators b) ''summary'' =
     fst (run_items D False ''summary'' (Some ''Summary must not be empty.'')
            [Trim, IsLength 1, Escape] (b ''summary'') [])"
  "fst (run_chains D book_validators b) ''isbn'' =
     fst (run_items D False ''isbn'' (Some ''ISBN must not be empty'')
            [Trim, IsLength 1, Escape] (b ''isbn'') [])"
  supply run_items.simps [simp del]
  by (cases "b ''genre''";
      simp add: run_chains_def book_validators_def run_chain_def body_def split_beta)+

lemma book_texts_sanitized:
  "b ''title'' = Str s \<Longrightarrow>
     fst (run_chains D book_validators (genre_to_array b)) ''title'' = Str (escape (trim s))"
  "b ''author'' = Str s \<Longrightarrow>
     fst (run_chains D book_validators (genre_to_array b)) ''author'' = Str (escape (trim s))"
  "b ''summary'' = Str s \<Longrightarrow>
     fst (run_chains D book_validators (genre_to_array b)) ''summary'' = Str (escape (trim s))"
  "b ''isbn'' = Str s \<Longrightarrow>
     fst (run_chains D book_validators (genre_to_array b)) ''isbn'' = Str (escape (trim s))"
  by (simp_all add: book_sanitized sanitize_def genre_to_array_other)

lemma run_each_escape:
  "run_each D (body (Each f) None [Escape]) f i (map Str xs) = (map (\<lambda>s. Str (escape s)) xs, [])"
  by (induction xs arbitrary: i) (simp_all add: body_def sanitize_def)

lemma book_genre_sanitized:
  "b ''genre'' = Arr (map Str xs) \<Longrightarrow>
     fst (run_chains D book_validators b) ''genre'' = Arr (map (\<lambda>s. Str (escape s)) xs)"
  supply run_items.simps [simp del]
  by (simp add: run_chains_def book_validators_def run_chain_def split_beta
      run_each_escape [unfolded body_def] body_def)

lemma genre_sanitized:
  "b ''genre'' = Undefined \<Longrightarrow>
     fst (run_chains D book_validators (genre_to_array b)) ''genre'' = Arr []"
  "b ''genre'' = Str s \<Longrightarrow>
     fst (run_chains D book_validators (genre_to_array b)) ''genre'' = Arr [Str (escape s)]"
  "b ''genre'' = Arr (map Str xs) \<Longrightarrow>
     fst (run_chains D book_validators (genre_to_array b)) ''genre'' =
       Arr (map (\<lambda>s. Str (escape s)) xs)"
proof -
  assume "b ''genre'' = Undefined"
  then have "genre_to_array b ''genre'' = Arr (map Str [])" by (simp add: genre_to_array_def)
  from book_genre_sanitized [of "genre_to_array b" "[]" D, OF this]
  show "fst (run_chains D book_validators (genre_to_array b)) ''genre'' = Arr []" by simp
next
  assume "b ''genre'' = Str s"
  then have "genre_to_array b ''genre'' = Arr (map Str [s])" by (simp add: genre_to_array_def)
  from book_genre_sanitized [of "genre_to_array b" "[s]" D, OF this]
  show "fst (run_chains D book_validators (genre_to_array b)) ''genre'' = Arr [Str (escape s)]"
    by simp
next
  assume "b ''genre'' = Arr (map Str xs)"
  then have "genre_to_array b ''genre'' = Arr (map Str xs)" by (simp add: genre_to_array_def)
  from book_genre_sanitized [of "genre_to_array b" xs D, OF this]
  show "fst (run_chains D book_validators (genre_to_array b)) ''genre'' =
       Arr (map (\<lambda>s. Str (escape s)) xs)" .
qed

lemma author_dates_sanitized:
  "b ''date_of_birth'' = Str s \<Longrightarrow>
     fst (run_chains D author_validators b) ''date_of_birth'' =
       (if s = [] then Str [] else toDate D s)"
  "b ''date_of_death'' = Str s \<Longrightarrow>
     fst (run_chains D author_validators b) ''date_of_death'' =
       (if s = [] then Str [] else toDate D s)"
  "b ''date_of_birth'' = Undefined \<Longrightarrow>
     fst (run_chains D author_validators b) ''date_of_birth'' = Undefined"
  "b ''date_of_death'' = Undefined \<Longrightarrow>
     fst (run_chains D author_validators b) ''date_of_death'' = Undefined"
  by (simp_all add: author_sanitized sanitize_def)

lemma cast_date_toDate: "cast_date D (toDate D s) = Some (toDate D s)"
  by (simp add: toDate_def split: option.splits)

lemma cast_date_held:
  "text_or_absent v \<Longrightarrow>
   cast_date D (case v of Str s \<Rightarrow> if s = [] then Str [] else toDate D s | _ \<Rightarrow> Undefined) =
     Some (date_held D v)"
  by (cases v) (simp_all add: cast_date_toDate)

lemma sample_ids:
  "castObjectId id_a1 = Some 161" "castObjectId id_a2 = Some 162"
  "castObjectId id_b1 = Some 177" "castObjectId id_b2 = Some 178"
  "castObjectId id_c1 = Some 193" "castObjectId id_ff = Some 255"
  "castObjectId ''zz'' = None"
  by (simp_all add: castObjectId_def id_a1_def id_a2_def id_b1_def id_b2_def id_c1_def
      id_ff_def hex_value_def)


lemmas sample_defs = sample_store_def ada_def charles_def sketch_def essays_def science_def
  copy1_def form_of_def sample_deps_def

lemmas chain_defs = run_chains_def author_validators_def book_validators_def run_chain_def
  body_def genre_to_array_def message_of_def validate_def values_of_def sanitize_def
  trim_def ltrim_def rtrim_def is_space_def isLength_def escape_def escape_char_def
  isAlphanumeric_def is_alnum_def toDate_def

section \<open>The claims\<close>

text \<open>
  Claim C1. A delete POST for an author or a book whose id, taken from the URL, has at
  least one dependent record (a book of that author, a copy of that book) renders the
  delete page again, with the document and its dependents, and leaves the store as it
  was: nothing is deleted. A record depends on the id of the URL when it refers to the
  ObjectId that id is cast to.
\<close>

theorem delete_post_refused_with_dependents:
  "(\<forall>n. castObjectId (params_id req) = Some n \<and> (\<exists>b\<in>set (books st). author b = Oid n) \<longrightarrow>
      author_delete_post sch req st =
        (Render ''author_delete''
           [(''title'', Text ''Delete Author''),
            (''author'', AuthorDoc (by_id n (authors st))),
            (''author_books'', BookDocs (map project_title_summary
               (filter (\<lambda>b. author b = Oid n) (books st))))], st)) \<and>
   (\<forall>n. castObjectId (params_id req) = Some n \<and>
        (\<exists>c\<in>set (bookinstances st). book c = Oid n) \<longrightarrow>
      book_delete_post sch req st =
        (Render ''book_delete''
           [(''title'', Text ''Delete Book''),
            (''book'', BookDoc (by_id n (books st))),
            (''book_instances'', Instances
               (filter (\<lambda>c. book c = Oid n) (bookinstances st)))], st))"
proof (intro conjI allI impI)
  fix n
  assume a: "castObjectId (params_id req) = Some n \<and> (\<exists>b\<in>set (books st). author b = Oid n)"
  then have "filter (\<lambda>b. author b = Oid n) (books st) \<noteq> []"
    by (simp add: filter_empty_conv)
  with a show "author_delete_post sch req st =
        (Render ''author_delete''
           [(''title'', Text ''Delete Author''),
            (''author'', AuthorDoc (by_id n (authors st))),
            (''author_books'', BookDocs (map project_title_summary
               (filter (\<lambda>b. author b = Oid n) (books st))))], st)"
    by (simp add: author_delete_post_def awaits fst_reads both_def)
next
  fix n
  assume a: "castObjectId (params_id req) = Some n \<and>
    (\<exists>c\<in>set (bookinstances st). book c = Oid n)"
  then have "filter (\<lambda>c. book c = Oid n) (bookinstances st) \<noteq> []"
    by (simp add: filter_empty_conv)
  with a show "book_delete_post sch req st =
        (Render ''book_delete''
           [(''title'', Text ''Delete Book''),
            (''book'', BookDoc (by_id n (books st))),
            (''book_instances'', Instances
               (filter (\<lambda>c. book c = Oid n) (bookinstances st)))], st)"
    by (simp add: book_delete_post_def awaits fst_reads both_def)
qed

theorem delete_post_refused_with_dependents_witness:
  "author_delete_post [1, 0]
     \<lparr>params_id = id_a1, req_body = form_of [(''authorid'', Str id_a1)]\<rparr> sample_store =
     (Render ''author_delete''
        [(''title'', Text ''Delete Author''), (''author'', AuthorDoc (Some ada)),
         (''author_books'', BookDocs
            [project_title_summary sketch, project_title_summary essays])],
      sample_store) \<and>
   book_delete_post [1, 0]
     \<lparr>params_id = id_b1, req_body = form_of [(''bookid'', Str id_b1)]\<rparr> sample_store =
     (Render ''book_delete''
        [(''title'', Text ''Delete Book''), (''book'', BookDoc (Some sketch)),
         (''book_instances'', Instances [copy1])],
      sample_store)"
  using
    delete_post_refused_with_dependents [where st = sample_store and sch = "[1, 0]"
      and req = "\<lparr>params_id = id_a1, req_body = form_of [(''authorid'', Str id_a1)]\<rparr>"]
    delete_post_refused_with_dependents [where st = sample_store and sch = "[1, 0]"
      and req = "\<lparr>params_id = id_b1, req_body = form_of [(''bookid'', Str id_b1)]\<rparr>"]
  by (simp add: sample_defs sample_ids by_id_def)

text \<open>
  Claim C2, as the code has it. A request for the detail page of an author or of a book
  (and for the update form of one) whose id is a well-formed ObjectId and the id of no
  stored document passes an error with status 404 to \<^verbatim>\<open>next\<close>; nothing is rendered and
  the store is left as it was. An id that is no ObjectId is the id of no stored
  document either, but there the lookup rejects and the error passed on is the cast
  error, which has no status.
\<close>

theorem detail_of_unknown_id_is_404:
  "(castObjectId (params_id req) \<noteq> None \<and> id_of_no (params_id req) (authors st) \<longrightarrow>
      author_detail sch req st = (Next (Error ''Author not found'' (Some 404)), st) \<and>
      author_update_get req st = (Next (Error ''Author not found'' (Some 404)), st)) \<and>
   (castObjectId (params_id req) \<noteq> None \<and> id_of_no (params_id req) (books st) \<longrightarrow>
      book_detail sch req st = (Next (Error ''Book not found'' (Some 404)), st) \<and>
      book_update_get sch req st = (Next (Error ''Book not found'' (Some 404)), st)) \<and>
   (castObjectId (params_id req) = None \<longrightarrow>
      author_detail sch req st = (Next CastError, st) \<and>
      author_update_get req st = (Next CastError, st) \<and>
      book_detail sch req st = (Next CastError, st) \<and>
      book_update_get sch req st = (Next CastError, st))"
  by (auto simp: author_detail_def author_update_get_def book_detail_def book_update_get_def
      awaits fst_reads both_def by_id_None Author_findById_def)

theorem detail_of_unknown_id_is_404_witness:
  "author_detail [] \<lparr>params_id = id_ff, req_body = form_of []\<rparr> sample_store =
     (Next (Error ''Author not found'' (Some 404)), sample_store) \<and>
   author_update_get \<lparr>params_id = id_ff, req_body = form_of []\<rparr> sample_store =
     (Next (Error ''Author not found'' (Some 404)), sample_store) \<and>
   book_detail [] \<lparr>params_id = id_ff, req_body = form_of []\<rparr> sample_store =
     (Next (Error ''Book not found'' (Some 404)), sample_store) \<and>
   book_update_get [] \<lparr>params_id = id_ff, req_body = form_of []\<rparr> sample_store =
     (Next (Error ''Book not found'' (Some 404)), sample_store) \<and>
   error_status (Error ''Author not found'' (Some 404)) = Some 404"
  using detail_of_unknown_id_is_404 [where st = sample_store and sch = "[]"
      and req = "\<lparr>params_id = id_ff, req_body = form_of []\<rparr>"]
  by (simp add: sample_defs sample_ids id_of_no_def)

text \<open>The claim as it was stated fails at the id \<^verbatim>\<open>zz\<close>: it is the id of no stored author
  and of no stored book, and the detail pages pass on an error that has no status.\<close>

theorem detail_of_malformed_id_counterexample:
  "id_of_no ''zz'' (authors sample_store) \<and> id_of_no ''zz'' (books sample_store) \<and>
   author_detail [] \<lparr>params_id = ''zz'', req_body = form_of []\<rparr> sample_store =
     (Next CastError, sample_store) \<and>
   book_detail [] \<lparr>params_id = ''zz'', req_body = form_of []\<rparr> sample_store =
     (Next CastError, sample_store) \<and>
   error_status CastError \<noteq> Some 404"
  by (simp add: sample_defs sample_ids id_of_no_def author_detail_def book_detail_def
      awaits fst_reads both_def)

text \<open>
  Claim C3. When the validation chains of a create POST or an update POST (of an author
  or of a book) record at least one error, the handler renders the form it came from
  again, with the document built from the sanitised fields and with the list of the
  errors, and the store is left as it was: nothing is saved or updated. The sanitised
  value of a text field is its text, trimmed and escaped; of a date field its empty
  text, or the date its text parses to, or \<^verbatim>\<open>null\<close>; of the genres the array of the
  escaped texts. The document holds the sanitised names as they are, and for a date
  what the sanitised value is cast to: \<^verbatim>\<open>null\<close> for the empty text.
\<close>

theorem validation_errors_rerender_form:
  "(let (b, errors) = run_chains D author_validators (req_body req) in
      errors \<noteq> [] \<longrightarrow>
        author_create_post D newid req st =
          (Render ''author_form''
             [(''title'', Text ''Create Author''),
              (''author'', AuthorDoc (Some (fst (new_Author D (Oid newid) (b ''first_name'')
                 (b ''family_name'') (b ''date_of_birth'') (b ''date_of_death''))))),
              (''errors'', Errors errors)], st) \<and>
        author_update_post D req st =
          (Render ''author_form''
             [(''title'', Text ''Update Author''),
              (''author'', AuthorDoc (Some (fst (new_Author D (Str (params_id req))
                 (b ''first_name'') (b ''family_name'') (b ''date_of_birth'')
                 (b ''date_of_death''))))),
              (''errors'', Errors errors)], st)) \<and>
   (let (b, errors) = run_chains D book_validators (genre_to_array (req_body req));
        created = fst (new_Book D (Oid newid) (b ''title'') (b ''author'') (b ''summary'')
                    (b ''isbn'') (b ''genre''));
        updated = fst (new_Book D (Str (params_id req)) (b ''title'') (b ''author'')
                    (b ''summary'') (b ''isbn'')
                    (if is_undefined (b ''genre'') then Arr [] else b ''genre''))
    in errors \<noteq> [] \<longrightarrow>
        book_create_post D sch newid req st =
          (Render ''book_form''
             [(''title'', Text ''Create Book''),
              (''authors'', AuthorDocs (sort_asc family_name (authors st))),
              (''genres'', GenreChoices (mark_checked (genre created) (sort_asc name (genres st)))),
              (''book'', BookDoc (Some created)),
              (''errors'', Errors errors)], st) \<and>
        book_update_post D sch req st =
          (Render ''book_form''
             [(''title'', Text ''Update Book''),
              (''authors'', AuthorDocs (sort_asc family_name (authors st))),
              (''genres'', GenreChoices (mark_checked (genre updated) (sort_asc name (genres st)))),
              (''book'', BookDoc (Some updated)),
              (''errors'', Errors errors)], st)) \<and>
   (\<forall>f\<in>{''first_name'', ''family_name''}. \<forall>s. req_body req f = Str s \<longrightarrow>
      fst (run_chains D author_validators (req_body req)) f = Str (escape (trim s))) \<and>
   (\<forall>f\<in>{''date_of_birth'', ''date_of_death''}. \<forall>s. req_body req f = Str s \<longrightarrow>
      fst (run_chains D author_validators (req_body req)) f =
        (if s = [] then Str [] else toDate D s)) \<and>
   (\<forall>f\<in>{''title'', ''author'', ''summary'', ''isbn''}. \<forall>s. req_body req f = Str s \<longrightarrow>
      fst (run_chains D book_validators (genre_to_array (req_body req))) f =
        Str (escape (trim s))) \<and>
   (req_body req ''genre'' = Undefined \<longrightarrow>
      fst (run_chains D book_validators (genre_to_array (req_body req))) ''genre'' = Arr []) \<and>
   (\<forall>s. req_body req ''genre'' = Str s \<longrightarrow>
      fst (run_chains D book_validators (genre_to_array (req_body req))) ''genre'' =
        Arr [Str (escape s)]) \<and>
   (\<forall>xs. req_body req ''genre'' = Arr (map Str xs) \<longrightarrow>
      fst (run_chains D book_validators (genre_to_array (req_body req))) ''genre'' =
        Arr (map (\<lambda>s. Str (escape s)) xs)) \<and>
   (\<forall>i x y d1 d2. new_Author D (Oid i) (Str x) (Str y) d1 d2 =
      (\<lparr>oid = Oid i, first_name = Str x, family_name = Str y,
        date_of_birth = or_undefined (cast_date D d1),
        date_of_death = or_undefined (cast_date D d2)\<rparr>,
       cast_date D d1 \<noteq> None \<and> cast_date D d2 \<noteq> None)) \<and>
   cast_date D (Str []) = Some Null \<and>
   (\<forall>s. cast_date D (toDate D s) = Some (toDate D s))"
proof (intro conjI)
  show "\<forall>f\<in>{''first_name'', ''family_name''}. \<forall>s. req_body req f = Str s \<longrightarrow>
      fst (run_chains D author_validators (req_body req)) f = Str (escape (trim s))"
    using author_names_sanitized [of "req_body req" _ D] by blast
  show "\<forall>f\<in>{''date_of_birth'', ''date_of_death''}. \<forall>s. req_body req f = Str s \<longrightarrow>
      fst (run_chains D author_validators (req_body req)) f =
        (if s = [] then Str [] else toDate D s)"
    using author_dates_sanitized(1,2) [of "req_body req" _ D] by blast
  show "\<forall>f\<in>{''title'', ''author'', ''summary'', ''isbn''}. \<forall>s. req_body req f = Str s \<longrightarrow>
      fst (run_chains D book_validators (genre_to_array (req_body req))) f =
        Str (escape (trim s))"
    using book_texts_sanitized [of "req_body req" _ D] by blast
  show "req_body req ''genre'' = Undefined \<longrightarrow>
      fst (run_chains D book_validators (genre_to_array (req_body req))) ''genre'' = Arr []"
    by (simp add: genre_sanitized(1))
  show "\<forall>s. req_body req ''genre'' = Str s \<longrightarrow>
      fst (run_chains D book_validators (genre_to_array (req_body req))) ''genre'' =
        Arr [Str (escape s)]"
    by (simp add: genre_sanitized(2))
  show "\<forall>xs. req_body req ''genre'' = Arr (map Str xs) \<longrightarrow>
      fst (run_chains D book_validators (genre_to_array (req_body req))) ''genre'' =
        Arr (map (\<lambda>s. Str (escape s)) xs)"
    by (simp add: genre_sanitized(3))
  show "\<forall>i x y d1 d2. new_Author D (Oid i) (Str x) (Str y) d1 d2 =
      (\<lparr>oid = Oid i, first_name = Str x, family_name = Str y,
        date_of_birth = or_undefined (cast_date D d1),
        date_of_death = or_undefined (cast_date D d2)\<rparr>,
       cast_date D d1 \<noteq> None \<and> cast_date D d2 \<noteq> None)"
    by (simp add: new_Author_def or_undefined_def)
  show "cast_date D (Str []) = Some Null" by simp
  show "\<forall>s. cast_date D (toDate D s) = Some (toDate D s)"
    by (simp add: cast_date_toDate)
qed (simp_all add: author_create_post_def author_update_post_def book_create_post_def
      book_update_post_def book_form_again_def split_beta Let_def awaits fst_reads both_def)

theorem validation_errors_rerender_form_witness:
  "author_create_post sample_deps 169
     \<lparr>params_id = [],
      req_body = form_of [(''first_name'', Str ''  ''), (''family_name'', Str '' O<Neil ''),
                          (''date_of_birth'', Str ''tomorrow''), (''date_of_death'', Str [])]\<rparr>
     sample_store =
     (Render ''author_form''
        [(''title'', Text ''Create Author''),
         (''author'', AuthorDoc (Some
            \<lparr>oid = Oid 169, first_name = Str [], family_name = Str ''O&lt;Neil'',
             date_of_birth = Null, date_of_death = Null\<rparr>)),
         (''errors'', Errors
            [\<lparr>msg = ''First name must be specified.'', path = ''first_name'', val = Str []\<rparr>,
             \<lparr>msg = ''First name has non-alphanumeric characters.'', path = ''first_name'',
              val = Str []\<rparr>,
             \<lparr>msg = ''Family name has non-alphanumeric characters.'', path = ''family_name'',
              val = Str ''O&lt;Neil''\<rparr>,
             \<lparr>msg = ''Invalid date of birth'', path = ''date_of_birth'',
              val = Str ''tomorrow''\<rparr>])],
      sample_store) \<and>
   book_update_post sample_deps []
     \<lparr>params_id = id_b1,
      req_body = form_of [(''title'', Str '' ''), (''author'', Str id_a1),
                          (''summary'', Str ''On the engine''), (''isbn'', Str ''1''),
                          (''genre'', Str id_c1)]\<rparr>
     sample_store =
     (Render ''book_form''
        [(''title'', Text ''Update Book''),
         (''authors'', AuthorDocs [charles, ada]),
         (''genres'', GenreChoices [(science, Str ''true'')]),
         (''book'', BookDoc (Some
            \<lparr>oid = Oid 177, title = Str [], author = Oid 161,
             summary = Str ''On the engine'', isbn = Str ''1'', genre = Arr [Oid 193]\<rparr>)),
         (''errors'', Errors
            [\<lparr>msg = ''Title must not be empty.'', path = ''title'', val = Str []\<rparr>])],
      sample_store)"
  using
    validation_errors_rerender_form [where D = sample_deps and newid = 169
      and st = sample_store and sch = "[]"
      and req = "\<lparr>params_id = [],
        req_body = form_of [(''first_name'', Str ''  ''), (''family_name'', Str '' O<Neil ''),
                          (''date_of_birth'', Str ''tomorrow''), (''date_of_death'', Str [])]\<rparr>"]
    validation_errors_rerender_form [where D = sample_deps and newid = 169
      and st = sample_store and sch = "[]"
      and req = "\<lparr>params_id = id_b1,
        req_body = form_of [(''title'', Str '' ''), (''author'', Str id_a1),
                          (''summary'', Str ''On the engine''), (''isbn'', Str ''1''),
                          (''genre'', Str id_c1)]\<rparr>"]
  by (simp add: chain_defs sample_defs sort_asc_def mark_checked_def
      array_includes_def new_Author_def new_Book_def or_undefined_def or_empty_def
      castObjectId_def hex_value_def id_a1_def id_b1_def id_c1_def)




text \<open>
  Claim C5, as the code has it. The validation chains test every value of a field: the
  text of the field when it is absent or holds one value, each element when it holds an
  array. They enforce, value by value: \<^verbatim>\<open>first_name\<close> and \<^verbatim>\<open>family_name\<close> are not empty
  once trimmed and hold alphanumeric characters only; \<^verbatim>\<open>date_of_birth\<close> and
  \<^verbatim>\<open>date_of_death\<close>, when given and truthy, are ISO 8601 dates; and, on a book form,
  \<^verbatim>\<open>title\<close>, \<^verbatim>\<open>author\<close>, \<^verbatim>\<open>summary\<close> and \<^verbatim>\<open>isbn\<close> are not empty once trimmed. A body
  with a value that violates one of these gets a validation error whose path is that
  field.
\<close>

theorem validation_enforced_per_field:
  "(\<forall>f\<in>{''first_name'', ''family_name''}.
      (\<exists>s\<in>set (field_texts D (b f)). trim s = [] \<or> \<not> list_all is_alnum (trim s)) \<longrightarrow>
      (\<exists>e\<in>set (snd (run_chains D author_validators b)). path e = f)) \<and>
   (\<forall>f\<in>{''date_of_birth'', ''date_of_death''}.
      \<not> falsy (b f) \<and> (\<exists>s\<in>set (field_texts D (b f)). \<not> isISO8601 D s) \<longrightarrow>
      (\<exists>e\<in>set (snd (run_chains D author_validators b)). path e = f)) \<and>
   (\<forall>f\<in>{''title'', ''author'', ''summary'', ''isbn''}.
      (\<exists>s\<in>set (field_texts D (b f)). trim s = []) \<longrightarrow>
      (\<exists>e\<in>set (snd (run_chains D book_validators (genre_to_array b))). path e = f))"
proof (intro conjI ballI impI)
  fix f :: string
  assume f: "f \<in> {''first_name'', ''family_name''}"
    and v: "\<exists>s\<in>set (field_texts D (b f)). trim s = [] \<or> \<not> list_all is_alnum (trim s)"
  from f consider "f = ''first_name''" | "f = ''family_name''" by blast
  then show "\<exists>e\<in>set (snd (run_chains D author_validators b)). path e = f"
  proof cases
    case 1
    from name_chain_rejects [OF v [unfolded 1]] show ?thesis
      unfolding author_errors 1 set_append by blast
  next
    case 2
    from name_chain_rejects [OF v [unfolded 2]] show ?thesis
      unfolding author_errors 2 set_append by blast
  qed
next
  fix f :: string
  assume f: "f \<in> {''date_of_birth'', ''date_of_death''}"
    and v: "\<not> falsy (b f) \<and> (\<exists>s\<in>set (field_texts D (b f)). \<not> isISO8601 D s)"
  from f consider "f = ''date_of_birth''" | "f = ''date_of_death''" by blast
  then show "\<exists>e\<in>set (snd (run_chains D author_validators b)). path e = f"
  proof cases
    case 1
    from v have "\<not> falsy (b ''date_of_birth'')"
      "\<exists>s\<in>set (field_texts D (b ''date_of_birth'')). \<not> isISO8601 D s" by (simp_all add: 1)
    from date_chain_rejects [OF this] show ?thesis
      unfolding author_errors 1 set_append by blast
  next
    case 2
    from v have "\<not> falsy (b ''date_of_death'')"
      "\<exists>s\<in>set (field_texts D (b ''date_of_death'')). \<not> isISO8601 D s" by (simp_all add: 2)
    from date_chain_rejects [OF this] show ?thesis
      unfolding author_errors 2 set_append by blast
  qed
next
  fix f :: string
  assume f: "f \<in> {''title'', ''author'', ''summary'', ''isbn''}"
    and v: "\<exists>s\<in>set (field_texts D (b f)). trim s = []"
  let ?b = "genre_to_array b"
  from f have "f \<noteq> ''genre''" by auto
  then have bf: "?b f = b f" by (rule genre_to_array_other)
  obtain rest where e: "snd (run_chains D book_validators ?b) =
     snd (run_items D False ''title'' (Some ''Title must not be empty.'')
            [Trim, IsLength 1, Escape] (?b ''title'') []) @
     snd (run_items D False ''author'' (Some ''Author must not be empty.'')
            [Trim, IsLength 1, Escape] (?b ''author'') []) @
     snd (run_items D False ''summary'' (Some ''Summary must not be empty.'')
            [Trim, IsLength 1, Escape] (?b ''summary'') []) @
     snd (run_items D False ''isbn'' (Some ''ISBN must not be empty'')
            [Trim, IsLength 1, Escape] (?b ''isbn'') []) @ rest"
    using book_errors [of D ?b] by blast
  from v bf have v': "\<exists>s\<in>set (field_texts D (?b f)). trim s = []" by simp
  from f consider "f = ''title''" | "f = ''author''" | "f = ''summary''" | "f = ''isbn''"
    by blast
  then show "\<exists>e\<in>set (snd (run_chains D book_validators ?b)). path e = f"
  proof cases
    case 1
    from text_chain_rejects [OF v' [unfolded 1]] show ?thesis
      unfolding e 1 set_append by blast
  next
    case 2
    from text_chain_rejects [OF v' [unfolded 2]] show ?thesis
      unfolding e 2 set_append by blast
  next
    case 3
    from text_chain_rejects [OF v' [unfolded 3]] show ?thesis
      unfolding e 3 set_append by blast
  next
    case 4
    from text_chain_rejects [OF v' [unfolded 4]] show ?thesis
      unfolding e 4 set_append by blast
  qed
qed

theorem validation_enforced_per_field_witness:
  "(\<exists>s\<in>set (field_texts sample_deps (Str ''  '')). trim s = []) \<and>
   (\<exists>s\<in>set (field_texts sample_deps (Str '' O<Neil '')). \<not> list_all is_alnum (trim s)) \<and>
   (\<exists>s\<in>set (field_texts sample_deps (Str ''tomorrow'')). \<not> isISO8601 sample_deps s) \<and>
   map path (snd (run_chains sample_deps author_validators
      (form_of [(''first_name'', Str ''  ''), (''family_name'', Str '' O<Neil ''),
                          (''date_of_birth'', Str ''tomorrow''), (''date_of_death'', Str [])]))) =
     [''first_name'', ''first_name'', ''family_name'', ''date_of_birth''] \<and>
   map path (snd (run_chains sample_deps book_validators (genre_to_array
      (form_of [(''title'', Str '' ''), (''author'', Str ''a1''), (''isbn'', Str []),
                (''genre'', Str ''g1'')])))) =
     [''title'', ''summary'', ''isbn'']"
  using
    validation_enforced_per_field [where D = sample_deps
      and b = "form_of [(''first_name'', Str ''  ''), (''family_name'', Str '' O<Neil ''),
                          (''date_of_birth'', Str ''tomorrow''), (''date_of_death'', Str [])]"]
    validation_enforced_per_field [where D = sample_deps
      and b = "form_of [(''title'', Str '' ''), (''author'', Str ''a1''), (''isbn'', Str []),
                (''genre'', Str ''g1'')]"]
  by (simp add: chain_defs sample_defs field_texts_def)

text \<open>The claim as it was stated, of the field and not of its values, fails on a field
  that holds an array: the text of the empty array is empty and the text of a repeated
  key holds a comma, and neither form gets an error for \<^verbatim>\<open>first_name\<close>.\<close>

theorem validation_of_array_field_counterexample:
  "trim (toString sample_deps (Arr [])) = [] \<and>
   list_all (\<lambda>e. path e \<noteq> ''first_name'')
     (snd (run_chains sample_deps author_validators
        (form_of [(''first_name'', Arr []), (''family_name'', Str ''King'')]))) \<and>
   \<not> list_all is_alnum (trim (toString sample_deps (Arr [Str ''Ada'', Str ''Bea'']))) \<and>
   list_all (\<lambda>e. path e \<noteq> ''first_name'')
     (snd (run_chains sample_deps author_validators
        (form_of [(''first_name'', Arr [Str ''Ada'', Str ''Bea'']),
                          (''family_name'', Str ''King'')])))"
  by (simp add: chain_defs sample_defs)

text \<open>
  Claim C6. In every state of the store the author list page renders all the authors
  (the same documents, each as often as it is stored) in ascending order of
  \<^verbatim>\<open>family_name\<close>, and the book list page renders all the books, each with its id and
  title, in ascending order of \<^verbatim>\<open>title\<close>. The order is the store's order of values;
  where all the names, or all the titles, are texts it is the order of the texts.
\<close>

theorem lists_sorted_ascending:
  "author_list st =
     (Render ''author_list''
        [(''title'', Text ''Author List''),
         (''author_list'', AuthorDocs (sort_asc family_name (authors st)))], st) \<and>
   mset (sort_asc family_name (authors st)) = mset (authors st) \<and>
   sorted (map (\<lambda>a. bson_key (family_name a)) (sort_asc family_name (authors st))) \<and>
   ((\<forall>a\<in>set (authors st). \<exists>s. family_name a = Str s) \<longrightarrow>
      sorted (map (\<lambda>a. text_of (family_name a)) (sort_asc family_name (authors st)))) \<and>
   book_list st =
     (Render ''book_list''
        [(''title'', Text ''Book List''),
         (''book_list'', BooksWithAuthor (map (populate_author st) (sort_asc title (map project_title_author (books st)))))], st) \<and>
   mset (map (\<lambda>b. (oid b, title b)) (map (populate_author st) (sort_asc title (map project_title_author (books st))))) =
     mset (map (\<lambda>b. (oid b, title b)) (books st)) \<and>
   sorted (map (\<lambda>b. bson_key (title b)) (map (populate_author st) (sort_asc title (map project_title_author (books st))))) \<and>
   ((\<forall>b\<in>set (books st). \<exists>s. title b = Str s) \<longrightarrow>
      sorted (map (\<lambda>b. text_of (title b)) (map (populate_author st) (sort_asc title (map project_title_author (books st))))))"
proof -
  let ?A = "sort_asc family_name (authors st)"
  let ?S = "sort_asc title (map project_title_author (books st))"
  let ?L = "map (populate_author st) ?S"
  have a1: "author_list st =
     (Render ''author_list''
        [(''title'', Text ''Author List''), (''author_list'', AuthorDocs ?A)], st)"
    by (simp add: author_list_def Author_find_sorted_def)
  have a2: "mset ?A = mset (authors st)" by (simp add: sort_asc_def)
  have a3: "sorted (map (\<lambda>a. bson_key (family_name a)) ?A)" by (simp add: sort_asc_def)
  have a4: "(\<forall>a\<in>set (authors st). \<exists>s. family_name a = Str s) \<longrightarrow>
      sorted (map (\<lambda>a. text_of (family_name a)) ?A)"
  proof
    assume "\<forall>a\<in>set (authors st). \<exists>s. family_name a = Str s"
    then have "\<forall>a\<in>set ?A. \<exists>s. family_name a = Str s" by (simp add: sort_asc_def)
    with a3 show "sorted (map (\<lambda>a. text_of (family_name a)) ?A)" by (rule sorted_texts)
  qed
  have b1: "book_list st =
     (Render ''book_list''
        [(''title'', Text ''Book List''), (''book_list'', BooksWithAuthor ?L)], st)"
    by (simp add: book_list_def Book_find_sorted_populated_def)
  have "mset (map (\<lambda>b. (oid b, title b)) ?L) = image_mset (\<lambda>b. (oid b, title b)) (mset ?S)"
    by (simp add: comp_def)
  also have "\<dots> = mset (map (\<lambda>b. (oid b, title b)) (books st))"
    by (simp add: sort_asc_def image_mset.compositionality comp_def)
  finally have b2: "mset (map (\<lambda>b. (oid b, title b)) ?L) =
     mset (map (\<lambda>b. (oid b, title b)) (books st))" .
  have "map (\<lambda>b. bson_key (title b)) ?L = map (\<lambda>b. bson_key (title b)) ?S"
    by (simp add: comp_def)
  moreover have "sorted (map (\<lambda>b. bson_key (title b)) ?S)" by (simp add: sort_asc_def)
  ultimately have b3: "sorted (map (\<lambda>b. bson_key (title b)) ?L)" by (simp only:)
  have b4: "(\<forall>b\<in>set (books st). \<exists>s. title b = Str s) \<longrightarrow>
      sorted (map (\<lambda>b. text_of (title b)) ?L)"
  proof
    assume "\<forall>b\<in>set (books st). \<exists>s. title b = Str s"
    then have "\<forall>b\<in>set ?L. \<exists>s. title b = Str s" by (auto simp: sort_asc_def)
    with b3 show "sorted (map (\<lambda>b. text_of (title b)) ?L)" by (rule sorted_texts)
  qed
  from a1 a2 a3 a4 b1 b2 b3 b4 show ?thesis by blast
qed

theorem lists_sorted_ascending_witness:
  "fst (author_list sample_store) =
     Render ''author_list''
       [(''title'', Text ''Author List''), (''author_list'', AuthorDocs [charles, ada])] \<and>
   sorted (map (\<lambda>a. text_of (family_name a)) (sort_asc family_name (authors sample_store))) \<and>
   map (\<lambda>b. text_of (title b))
     (map (populate_author sample_store)
        (sort_asc title (map project_title_author (books sample_store)))) =
     [''Essays'', ''Sketch''] \<and>
   sorted (map (\<lambda>b. text_of (title b))
     (map (populate_author sample_store)
        (sort_asc title (map project_title_author (books sample_store)))))"
  using lists_sorted_ascending [of sample_store]
  by (simp add: sample_defs sort_asc_def)

text \<open>
  Claim C7. The first middleware of the book create POST and update POST leaves the
  \<^verbatim>\<open>genre\<close> field an array whatever it was: an undefined field becomes the empty array,
  any other value that is no array becomes the array of that one value, and an array is
  left as it is (with the rest of the body); no other field changes; and converting
  twice is converting once.
\<close>

theorem genre_to_array_normalises:
  "(b ''genre'' = Undefined \<longrightarrow> genre_to_array b ''genre'' = Arr []) \<and>
   (b ''genre'' \<noteq> Undefined \<and> \<not> isArray (b ''genre'') \<longrightarrow>
      genre_to_array b ''genre'' = Arr [b ''genre'']) \<and>
   (isArray (b ''genre'') \<longrightarrow> genre_to_array b = b) \<and>
   isArray (genre_to_array b ''genre'') \<and>
   (\<forall>f. f \<noteq> ''genre'' \<longrightarrow> genre_to_array b f = b f) \<and>
   genre_to_array (genre_to_array b) = genre_to_array b"
  by (cases "b ''genre''") (simp_all add: genre_to_array_def)

theorem genre_to_array_normalises_witness:
  "genre_to_array (form_of [(''title'', Str ''Sketch'')]) ''genre'' = Arr [] \<and>
   genre_to_array (form_of [(''title'', Str ''Sketch''), (''genre'', Str ''g1'')]) ''genre'' =
     Arr [Str ''g1''] \<and>
   genre_to_array (form_of [(''genre'', Arr [Str ''g1'', Str ''g2''])]) ''genre'' =
     Arr [Str ''g1'', Str ''g2''] \<and>
   genre_to_array (form_of [(''title'', Str ''Sketch''), (''genre'', Str ''g1'')]) ''title'' =
     Str ''Sketch''"
  using
    genre_to_array_normalises [of "form_of [(''title'', Str ''Sketch'')]"]
    genre_to_array_normalises [of "form_of [(''title'', Str ''Sketch''), (''genre'', Str ''g1'')]"]
    genre_to_array_normalises [of "form_of [(''genre'', Arr [Str ''g1'', Str ''g2''])]"]
  by (simp add: form_of_def)

text \<open>
  Claim C8. Whatever the order in which the store serves them, the reads a handler
  awaits together give the results, and leave the store, that the same reads give when
  awaited one after the other in the order listed, on the same store. This holds for
  every group of reads a handler of the two controllers awaits together; and the home
  page, the detail page of an author and the detail page of a book answer as the
  handlers that await their reads in turn.
\<close>

theorem concurrent_reads_as_in_turn:
  "promise_all5 sch Book_countDocuments BookInstance_countDocuments
     (BookInstance_countDocuments_status v) Author_countDocuments Genre_countDocuments st =
     in_turn5 Book_countDocuments BookInstance_countDocuments
       (BookInstance_countDocuments_status v) Author_countDocuments Genre_countDocuments st \<and>
   promise_all2 sch (Author_findById i) (Book_find_author i) st =
     in_turn2 (Author_findById i) (Book_find_author i) st \<and>
   promise_all2 sch (Book_findById_populated i) (BookInstance_find_book i) st =
     in_turn2 (Book_findById_populated i) (BookInstance_find_book i) st \<and>
   promise_all2 sch (Book_findById i) (BookInstance_find_book i) st =
     in_turn2 (Book_findById i) (BookInstance_find_book i) st \<and>
   promise_all2 sch Author_find_sorted Genre_find_sorted st =
     in_turn2 Author_find_sorted Genre_find_sorted st \<and>
   promise_all3 sch (Book_findById_author i) Author_find_sorted Genre_find_sorted st =
     in_turn3 (Book_findById_author i) Author_find_sorted Genre_find_sorted st \<and>
   index sch st = index_in_turn st \<and>
   author_detail sch req st = author_detail_in_turn req st \<and>
   book_detail sch req st = book_detail_in_turn req st"
  by (simp add: index_def index_in_turn_def author_detail_def author_detail_in_turn_def
      book_detail_def book_detail_in_turn_def awaits)




text \<open>
  Claim C10, as the code has it. An update POST whose fields all pass validation and
  whose URL id is a well-formed ObjectId and the id of no stored author (or book) gets
  no 404: the update finds no document and returns \<^verbatim>\<open>null\<close>, reading the URL of the
  redirect from it throws, and the error thrown, which carries no status, is passed to
  \<^verbatim>\<open>next\<close>. When the URL id is no ObjectId the update itself rejects, and the cast
  error, which carries no status either, is passed on. The store is left as it was.
\<close>

theorem update_of_unknown_id_is_not_404:
  "(snd (run_chains D author_validators (req_body req)) = [] \<and>
    castObjectId (params_id req) \<noteq> None \<and> id_of_no (params_id req) (authors st) \<longrightarrow>
      author_update_post D req st = (Next TypeError, st)) \<and>
   (snd (run_chains D book_validators (genre_to_array (req_body req))) = [] \<and>
    castObjectId (params_id req) \<noteq> None \<and> id_of_no (params_id req) (books st) \<longrightarrow>
      book_update_post D sch req st = (Next TypeError, st)) \<and>
   (snd (run_chains D author_validators (req_body req)) = [] \<and>
    castObjectId (params_id req) = None \<longrightarrow>
      author_update_post D req st = (Next CastError, st)) \<and>
   (snd (run_chains D book_validators (genre_to_array (req_body req))) = [] \<and>
    castObjectId (params_id req) = None \<longrightarrow>
      book_update_post D sch req st = (Next CastError, st)) \<and>
   error_status TypeError = None \<and> error_status CastError = None"
  by (auto simp: author_update_post_def book_update_post_def split_beta
      Author_findByIdAndUpdate_def Book_findByIdAndUpdate_def by_id_None update_first_absent)

theorem update_of_unknown_id_is_not_404_witness:
  "author_update_post sample_deps
     \<lparr>params_id = id_ff, req_body = form_of [(''first_name'', Str '' Ada ''), (''family_name'', Str ''King''),
                          (''date_of_birth'', Str ''1815-12-10''), (''date_of_death'', Str [])]\<rparr>
     sample_store = (Next TypeError, sample_store) \<and>
   book_update_post sample_deps []
     \<lparr>params_id = id_ff,
      req_body = form_of [(''title'', Str ''Sketch''), (''author'', Str id_a1),
                          (''summary'', Str ''On the engine''), (''isbn'', Str ''1'')]\<rparr>
     sample_store = (Next TypeError, sample_store) \<and>
   error_status TypeError = None"
  using
    update_of_unknown_id_is_not_404 [where D = sample_deps and st = sample_store and sch = "[]"
      and req = "\<lparr>params_id = id_ff, req_body = form_of [(''first_name'', Str '' Ada ''), (''family_name'', Str ''King''),
                          (''date_of_birth'', Str ''1815-12-10''), (''date_of_death'', Str [])]\<rparr>"]
    update_of_unknown_id_is_not_404 [where D = sample_deps and st = sample_store and sch = "[]"
      and req = "\<lparr>params_id = id_ff,
        req_body = form_of [(''title'', Str ''Sketch''), (''author'', Str id_a1),
                          (''summary'', Str ''On the engine''), (''isbn'', Str ''1'')]\<rparr>"]
  by (simp add: chain_defs sample_defs sample_ids id_of_no_def id_a1_def)

text \<open>The claim as it was stated fails at the URL id \<^verbatim>\<open>zz\<close>, the id of no stored author:
  the fields pass validation and the error passed on is not the one thrown by reading
  the URL of an absent result.\<close>

theorem update_of_malformed_id_counterexample:
  "id_of_no ''zz'' (authors sample_store) \<and>
   snd (run_chains sample_deps author_validators
     (form_of [(''first_name'', Str '' Ada ''), (''family_name'', Str ''King''),
                          (''date_of_birth'', Str ''1815-12-10''), (''date_of_death'', Str [])])) = [] \<and>
   author_update_post sample_deps
     \<lparr>params_id = ''zz'', req_body = form_of [(''first_name'', Str '' Ada ''), (''family_name'', Str ''King''),
                          (''date_of_birth'', Str ''1815-12-10''), (''date_of_death'', Str [])]\<rparr>
     sample_store = (Next CastError, sample_store) \<and>
   CastError \<noteq> TypeError"
  by (simp add: author_update_post_def Author_findByIdAndUpdate_def chain_defs sample_defs
      sample_ids id_of_no_def)

end
